theory Spec2Isabelle
  imports Complex_Main
begin

section \<open>JavaScript numbers\<close>

text \<open>
  Every price, percentage and profit of the backtesting engine is a JavaScript
  \<^verbatim>\<open>number\<close>. The engine divides by entry prices and by the number of days without
  testing the divisor, so the special values of IEEE 754 are part of what the code
  computes and are kept in the model: \<open>PInf\<close> and \<open>NInf\<close> are \<^verbatim>\<open>Infinity\<close> and
  \<^verbatim>\<open>-Infinity\<close>, \<open>NaN\<close> is \<^verbatim>\<open>NaN\<close>, and the two zeros are distinct: \<open>Fin 0\<close> is
  \<^verbatim>\<open>+0\<close> and \<open>NZero\<close> is \<^verbatim>\<open>-0\<close>, which divide to infinities of opposite signs. Any
  other finite number is \<open>Fin a\<close> with the real \<open>a\<close> it denotes: rounding and the
  overflow of a finite result are abstracted. No operation below returns \<open>Fin 0\<close> for
  a result that IEEE 754 gives as \<^verbatim>\<open>-0\<close>.
\<close>

datatype jsnum = Fin real | NZero | PInf | NInf | NaN

text \<open>The sign bit, the classes of a number and the real value of a finite one.\<close>

fun negative :: "jsnum \<Rightarrow> bool" where
  "negative (Fin a) = (a < 0)"
| "negative NZero = True"
| "negative PInf = False"
| "negative NInf = True"
| "negative NaN = False"

fun isZero :: "jsnum \<Rightarrow> bool" where
  "isZero (Fin a) = (a = 0)"
| "isZero NZero = True"
| "isZero PInf = False"
| "isZero NInf = False"
| "isZero NaN = False"

fun isInf :: "jsnum \<Rightarrow> bool" where
  "isInf (Fin a) = False"
| "isInf NZero = False"
| "isInf PInf = True"
| "isInf NInf = True"
| "isInf NaN = False"

fun isNaN :: "jsnum \<Rightarrow> bool" where
  "isNaN (Fin a) = False"
| "isNaN NZero = False"
| "isNaN PInf = False"
| "isNaN NInf = False"
| "isNaN NaN = True"

fun realOf :: "jsnum \<Rightarrow> real" where
  "realOf (Fin a) = a"
| "realOf NZero = 0"
| "realOf PInf = 0"
| "realOf NInf = 0"
| "realOf NaN = 0"

text \<open>The zero and the infinity of a given sign bit.\<close>

definition zeroOf :: "bool \<Rightarrow> jsnum" where
  "zeroOf neg = (if neg then NZero else Fin 0)"

definition infOf :: "bool \<Rightarrow> jsnum" where
  "infOf neg = (if neg then NInf else PInf)"

text \<open>Unary minus flips the sign bit, of a zero too.\<close>

fun jneg :: "jsnum \<Rightarrow> jsnum" where
  "jneg (Fin a) = (if a = 0 then NZero else Fin (- a))"
| "jneg NZero = Fin 0"
| "jneg PInf = NInf"
| "jneg NInf = PInf"
| "jneg NaN = NaN"

text \<open>
  Addition. A sum that is zero is \<^verbatim>\<open>+0\<close>, also \<^verbatim>\<open>x + (-x)\<close> and \<^verbatim>\<open>+0 + -0\<close>; only
  \<^verbatim>\<open>-0 + -0\<close> is \<^verbatim>\<open>-0\<close>.
\<close>

fun jadd :: "jsnum \<Rightarrow> jsnum \<Rightarrow> jsnum" where
  "jadd (Fin a) (Fin b) = Fin (a + b)"
| "jadd (Fin a) NZero = Fin a"
| "jadd NZero (Fin b) = Fin b"
| "jadd NZero NZero = NZero"
| "jadd NaN _ = NaN"
| "jadd _ NaN = NaN"
| "jadd PInf NInf = NaN"
| "jadd NInf PInf = NaN"
| "jadd PInf _ = PInf"
| "jadd _ PInf = PInf"
| "jadd NInf _ = NInf"
| "jadd _ NInf = NInf"

text \<open>Subtraction is the addition of the negated operand, as in IEEE 754.\<close>

definition jsub :: "jsnum \<Rightarrow> jsnum \<Rightarrow> jsnum" where
  "jsub a b = jadd a (jneg b)"

text \<open>
  Multiplication: the sign bit of the result is the exclusive or of the sign bits;
  infinity times zero is \<^verbatim>\<open>NaN\<close>.
\<close>

definition jmul :: "jsnum \<Rightarrow> jsnum \<Rightarrow> jsnum" where
  "jmul x y =
     (if isNaN x \<or> isNaN y then NaN
      else if (isInf x \<and> isZero y) \<or> (isZero x \<and> isInf y) then NaN
      else if isInf x \<or> isInf y then infOf (negative x \<noteq> negative y)
      else if isZero x \<or> isZero y then zeroOf (negative x \<noteq> negative y)
      else Fin (realOf x * realOf y))"

text \<open>
  Division: zero by zero and infinity by infinity are \<^verbatim>\<open>NaN\<close>; a number that is not
  zero divided by a zero is the infinity whose sign bit is the exclusive or of the sign
  bits, so \<^verbatim>\<open>x / -0\<close> is \<^verbatim>\<open>-Infinity\<close> for a positive \<^verbatim>\<open>x\<close>.
\<close>

definition jdiv :: "jsnum \<Rightarrow> jsnum \<Rightarrow> jsnum" where
  "jdiv x y =
     (if isNaN x \<or> isNaN y then NaN
      else if (isInf x \<and> isInf y) \<or> (isZero x \<and> isZero y) then NaN
      else if isInf x then infOf (negative x \<noteq> negative y)
      else if isInf y then zeroOf (negative x \<noteq> negative y)
      else if isZero y then infOf (negative x \<noteq> negative y)
      else if isZero x then zeroOf (negative x \<noteq> negative y)
      else Fin (realOf x / realOf y))"

text \<open>
  \<^verbatim>\<open>a >= b\<close>: false as soon as one side is \<^verbatim>\<open>NaN\<close>; the two zeros compare equal.
\<close>

fun jge :: "jsnum \<Rightarrow> jsnum \<Rightarrow> bool" where
  "jge NaN _ = False"
| "jge _ NaN = False"
| "jge PInf _ = True"
| "jge _ NInf = True"
| "jge _ PInf = False"
| "jge NInf _ = False"
| "jge x y = (realOf y \<le> realOf x)"

text \<open>\<^verbatim>\<open>a <= b\<close>.\<close>

definition jle :: "jsnum \<Rightarrow> jsnum \<Rightarrow> bool" where
  "jle a b = jge b a"

text \<open>Truthiness of a number: \<^verbatim>\<open>+0\<close>, \<^verbatim>\<open>-0\<close> and \<^verbatim>\<open>NaN\<close> are falsy.\<close>

fun truthy :: "jsnum \<Rightarrow> bool" where
  "truthy (Fin a) = (a \<noteq> 0)"
| "truthy NZero = False"
| "truthy NaN = False"
| "truthy PInf = True"
| "truthy NInf = True"

text \<open>
  \<^verbatim>\<open>x || 0\<close> where \<^verbatim>\<open>x\<close> is a number or \<^verbatim>\<open>undefined\<close> (the result of an optional
  chain such as \<^verbatim>\<open>ce?.entryPrice\<close>): \<^verbatim>\<open>undefined\<close>, \<^verbatim>\<open>+0\<close>, \<^verbatim>\<open>-0\<close> and \<^verbatim>\<open>NaN\<close> all
  give \<^verbatim>\<open>+0\<close>.
\<close>

fun orZero :: "jsnum option \<Rightarrow> jsnum" where
  "orZero None = Fin 0"
| "orZero (Some x) = (if truthy x then x else Fin 0)"

section \<open>Data model (models/types)\<close>

text \<open>
  A \<^verbatim>\<open>Date\<close> is modelled by its time value, the milliseconds since the epoch. The
  event clock of the engine keys ticks by \<^verbatim>\<open>toISOString()\<close> and sorts these strings:
  for the four-digit years of market data the ISO string has a fixed width, two dates
  have the same string exactly when they have the same time value, and the strings sort
  as the time values do.
\<close>

type_synonym time = int

datatype optType = CE | PE

datatype exitReason = SL | TOTAL_PL_TARGET | TOTAL_PL_SL | EOD

text \<open>Optional fields (\<^verbatim>\<open>exitPrice?\<close>, ...) are \<open>None\<close> while \<^verbatim>\<open>undefined\<close>.\<close>

record Position =
  type :: optType
  entryPrice :: jsnum
  entryTime :: time
  isActive :: bool
  strikePrice :: jsnum
  exitPrice :: "jsnum option"
  exitTime :: "time option"
  exitReason :: "exitReason option"
  pnl :: "jsnum option"

text \<open>
  One row of a tick series. The fields \<^verbatim>\<open>id\<close> and \<^verbatim>\<open>topic\<close> of the row are never read
  by the backtest service and are left out.
\<close>

record OptionData =
  ltp :: jsnum
  received_at :: time

record TradeDay =
  date :: string
  atmStrike :: jsnum
  positions :: "Position list"
  totalPnl :: jsnum
  madeAdjustment :: bool
  dayPnlPercent :: jsnum

text \<open>
  The aggregate result. Its total has the field name \<^verbatim>\<open>totalPnl\<close> in the source, as
  the day's total has; here it is \<open>totalPnl_all\<close>. The two counters only ever
  count days up from zero and are natural numbers.
\<close>

record BacktestResult =
  days :: "TradeDay list"
  totalPnl_all :: jsnum
  winningDays :: nat
  losingDays :: nat
  winRate :: jsnum
  averageDailyPnl :: jsnum

section \<open>Configuration and the data service\<close>

text \<open>
  The constants of \<^verbatim>\<open>config/constants\<close> and the time utilities are parameters of the
  model. \<open>lotSize\<close> is the value the constructor reads from
  \<^verbatim>\<open>getLotSize(INDEX_NAME)\<close>; \<open>entryDateTime d\<close> is
  \<^verbatim>\<open>createDateTime(d, ENTRY_TIME)\<close> and \<open>adjustmentDateTime d\<close> is
  \<^verbatim>\<open>createDateTime(d, ADJUSTMENT_TIME)\<close>.
\<close>

record Config =
  SL_PERCENT :: jsnum
  PNL_TARGET_PERCENT :: jsnum
  PNL_SL_PERCENT :: jsnum
  lotSize :: jsnum
  entryDateTime :: "string \<Rightarrow> time"
  adjustmentDateTime :: "string \<Rightarrow> time"

text \<open>
  The three queries of \<^verbatim>\<open>DataService\<close> that the backtest service awaits, with the
  entry and exit times already supplied. Each one can reject: the topic lookup throws
  when a topic is unknown, and the database query can fail.
\<close>

datatype fault = TopicNotFound | QueryFailed

record DataService =
  getATMStrike :: "string \<Rightarrow> fault + jsnum option"
  getOptionPrice :: "string \<Rightarrow> jsnum \<Rightarrow> optType \<Rightarrow> fault + jsnum"
  getOptionPriceTimeSeries :: "string \<Rightarrow> jsnum \<Rightarrow> optType \<Rightarrow> fault + OptionData list"

section \<open>The event loop of \<^verbatim>\<open>processOptionPrices\<close>\<close>

text \<open>\<^verbatim>\<open>exitPosition\<close> (lines 280-290): the four assignments, whatever the position holds.\<close>

definition exitPosition :: "Position \<Rightarrow> jsnum \<Rightarrow> time \<Rightarrow> exitReason \<Rightarrow> Position" where
  "exitPosition position price time reason =
     position\<lparr>exitPrice := Some price, exitTime := Some time, isActive := False,
       exitReason := Some reason\<rparr>"

text \<open>
  \<^verbatim>\<open>positions.find(p => ...)\<close> yields a reference to an element of the array, and the
  exits of the event mutate the object behind it. The reference is modelled by the
  index of the element: \<open>findIndex P xs\<close> is the index of the first element that
  satisfies \<open>P\<close>, \<open>None\<close> for \<^verbatim>\<open>undefined\<close>.
\<close>

fun findIndex :: "('a \<Rightarrow> bool) \<Rightarrow> 'a list \<Rightarrow> nat option" where
  "findIndex P [] = None"
| "findIndex P (x # xs) = (if P x then Some 0 else map_option Suc (findIndex P xs))"

text \<open>
  \<^verbatim>\<open>if (leg && data) this.exitPosition(leg, data.ltp, currentTime, reason)\<close>, one of
  the four guarded calls of lines 198-208.
\<close>

fun exitLeg :: "nat option \<Rightarrow> OptionData option \<Rightarrow> time \<Rightarrow> exitReason \<Rightarrow> Position list
    \<Rightarrow> Position list" where
  "exitLeg (Some i) (Some d) currentTime reason ps =
     ps[i := exitPosition (ps ! i) (ltp d) currentTime reason]"
| "exitLeg _ _ currentTime reason ps = ps"

text \<open>
  The individual stop-loss of one leg (lines 212-217, and 220-225 for the other leg).
  The test is on the reference taken at the start of the event and on the tick; the
  position's \<^verbatim>\<open>isActive\<close> is not read again.
\<close>

fun individualSL :: "Config \<Rightarrow> nat option \<Rightarrow> OptionData option \<Rightarrow> time \<Rightarrow> Position list
    \<Rightarrow> Position list" where
  "individualSL cfg (Some i) (Some d) currentTime ps =
     (let change = jmul (jdiv (jsub (ltp d) (entryPrice (ps ! i))) (entryPrice (ps ! i))) (Fin 100)
      in if jle change (jneg (SL_PERCENT cfg))
         then ps[i := exitPosition (ps ! i) (ltp d) currentTime SL]
         else ps)"
| "individualSL cfg _ _ currentTime ps = ps"

text \<open>The three named constants of lines 191-193.\<close>

definition totalEntry :: "Position list \<Rightarrow> nat option \<Rightarrow> nat option \<Rightarrow> jsnum" where
  "totalEntry ps ce pe =
     jadd (orZero (map_option (\<lambda>i. entryPrice (ps ! i)) ce))
          (orZero (map_option (\<lambda>i. entryPrice (ps ! i)) pe))"

definition currentTotal :: "OptionData option \<Rightarrow> OptionData option \<Rightarrow> jsnum" where
  "currentTotal ceData peData = jadd (orZero (map_option ltp ceData)) (orZero (map_option ltp peData))"

definition totalChange :: "jsnum \<Rightarrow> jsnum \<Rightarrow> jsnum" where
  "totalChange current entry = jmul (jdiv (jsub current entry) entry) (Fin 100)"

text \<open>The combined target and the combined stop-loss (lines 196-209).\<close>

definition combinedExit :: "Config \<Rightarrow> nat option \<Rightarrow> nat option \<Rightarrow> OptionData option
    \<Rightarrow> OptionData option \<Rightarrow> time \<Rightarrow> Position list \<Rightarrow> Position list" where
  "combinedExit cfg ce pe ceData peData currentTime ps =
     (let change = totalChange (currentTotal ceData peData) (totalEntry ps ce pe)
      in if jge change (PNL_TARGET_PERCENT cfg)
         then exitLeg pe peData currentTime TOTAL_PL_TARGET
                (exitLeg ce ceData currentTime TOTAL_PL_TARGET ps)
         else if jle change (jneg (PNL_SL_PERCENT cfg))
         then exitLeg pe peData currentTime TOTAL_PL_SL
                (exitLeg ce ceData currentTime TOTAL_PL_SL ps)
         else ps)"

text \<open>The warnings written to the console by \<^verbatim>\<open>processOptionPrices\<close>.\<close>

datatype warning = SkippingAdjustment | NoTimeSeries optType

text \<open>
  The state the loop carries: the trade day it mutates, the local flag
  \<^verbatim>\<open>adjustmentDone\<close> and the console.
\<close>

record LoopState =
  tradeDay :: TradeDay
  adjustmentDone :: bool
  console :: "warning list"

text \<open>The pair pushed at lines 245-260.\<close>

definition adjustmentPair :: "jsnum \<Rightarrow> jsnum \<Rightarrow> time \<Rightarrow> jsnum \<Rightarrow> Position list" where
  "adjustmentPair adjCePrice adjPePrice currentTime strike =
     [\<lparr>type = CE, entryPrice = adjCePrice, entryTime = currentTime, isActive = True,
        strikePrice = strike, exitPrice = None, exitTime = None, exitReason = None, pnl = None\<rparr>,
      \<lparr>type = PE, entryPrice = adjPePrice, entryTime = currentTime, isActive = True,
        strikePrice = strike, exitPrice = None, exitTime = None, exitReason = None, pnl = None\<rparr>]"

text \<open>
  The adjustment logic that ends the body of the loop (lines 228-262), on the positions
  \<open>ps\<close> left by the exits of this event. The \<^verbatim>\<open>continue\<close> of line 239 is the last
  statement the iteration would run anyway.
\<close>

definition adjust :: "Config \<Rightarrow> string \<Rightarrow> OptionData option \<Rightarrow> OptionData option \<Rightarrow> time
    \<Rightarrow> Position list \<Rightarrow> LoopState \<Rightarrow> LoopState" where
  "adjust cfg d ceData peData currentTime ps st =
     (if \<not> adjustmentDone st \<and> currentTime < adjustmentDateTime cfg d
      then
        if list_all (\<lambda>p. \<not> isActive p) ps
        then
          (case (ceData, peData) of
             (Some c, Some p) \<Rightarrow>
               st\<lparr>tradeDay := (tradeDay st)\<lparr>positions :=
                      ps @ adjustmentPair (ltp c) (ltp p) currentTime (atmStrike (tradeDay st)),
                    madeAdjustment := True\<rparr>,
                  adjustmentDone := True\<rparr>
           | _ \<Rightarrow>
               st\<lparr>tradeDay := (tradeDay st)\<lparr>positions := ps, madeAdjustment := True\<rparr>,
                  adjustmentDone := True,
                  console := console st @ [SkippingAdjustment]\<rparr>)
        else st\<lparr>tradeDay := (tradeDay st)\<lparr>positions := ps\<rparr>\<rparr>
      else st\<lparr>tradeDay := (tradeDay st)\<lparr>positions := ps\<rparr>\<rparr>)"

text \<open>
  The exits of one event (lines 189-225), on the references \<open>ce\<close> and \<open>pe\<close> taken
  at line 184: the combined check, then the individual stop-loss of each leg.
\<close>

definition applyExits :: "Config \<Rightarrow> nat option \<Rightarrow> nat option \<Rightarrow> OptionData option
    \<Rightarrow> OptionData option \<Rightarrow> time \<Rightarrow> Position list \<Rightarrow> Position list" where
  "applyExits cfg ce pe ceData peData currentTime ps =
     (let ps1 = combinedExit cfg ce pe ceData peData currentTime ps;
          ps2 = individualSL cfg ce ceData currentTime ps1
      in individualSL cfg pe peData currentTime ps2)"

text \<open>
  One iteration of the loop over \<^verbatim>\<open>sortedTimes\<close> (lines 176-262). \<open>None\<close> is the
  \<^verbatim>\<open>break\<close> of line 187.
\<close>

definition processEvent :: "Config \<Rightarrow> string \<Rightarrow> OptionData list \<Rightarrow> OptionData list \<Rightarrow> time
    \<Rightarrow> LoopState \<Rightarrow> LoopState option" where
  "processEvent cfg d ceTimeSeries peTimeSeries currentTime st =
     (let ceData = find (\<lambda>x. received_at x = currentTime) ceTimeSeries;
          peData = find (\<lambda>x. received_at x = currentTime) peTimeSeries;
          ps = positions (tradeDay st);
          ce = findIndex (\<lambda>p. type p = CE \<and> isActive p) ps;
          pe = findIndex (\<lambda>p. type p = PE \<and> isActive p) ps
      in if ce = None \<and> pe = None then None
         else Some (adjust cfg d ceData peData currentTime
                      (applyExits cfg ce pe ceData peData currentTime ps) st))"

fun eventLoop :: "Config \<Rightarrow> string \<Rightarrow> OptionData list \<Rightarrow> OptionData list \<Rightarrow> time list
    \<Rightarrow> LoopState \<Rightarrow> LoopState" where
  "eventLoop cfg d ceTimeSeries peTimeSeries [] st = st"
| "eventLoop cfg d ceTimeSeries peTimeSeries (t # ts) st =
     (case processEvent cfg d ceTimeSeries peTimeSeries t st of
        None \<Rightarrow> st
      | Some st' \<Rightarrow> eventLoop cfg d ceTimeSeries peTimeSeries ts st')"

text \<open>
  The end-of-day exit of one position (the body of the loop of lines 266-276), with the
  warning it writes when the leg has no series.
\<close>

definition eodExit :: "OptionData list \<Rightarrow> OptionData list \<Rightarrow> Position \<Rightarrow> Position \<times> warning list" where
  "eodExit ceTimeSeries peTimeSeries pos =
     (if isActive pos
      then
        let ts = (if type pos = CE then ceTimeSeries else peTimeSeries)
        in if ts = [] then (pos, [NoTimeSeries (type pos)])
           else (exitPosition pos (ltp (last ts)) (received_at (last ts)) EOD, [])
      else (pos, []))"

fun exitRemaining :: "OptionData list \<Rightarrow> OptionData list \<Rightarrow> Position list
    \<Rightarrow> Position list \<times> warning list" where
  "exitRemaining ceTimeSeries peTimeSeries [] = ([], [])"
| "exitRemaining ceTimeSeries peTimeSeries (pos # rest) =
     (let (pos', w) = eodExit ceTimeSeries peTimeSeries pos;
          (rest', ws) = exitRemaining ceTimeSeries peTimeSeries rest
      in (pos' # rest', w @ ws))"

text \<open>
  The merged event clock (lines 168-171): the distinct timestamps of both series,
  ascending.
\<close>

definition sortedTimes :: "OptionData list \<Rightarrow> OptionData list \<Rightarrow> time list" where
  "sortedTimes ceTimeSeries peTimeSeries =
     sort (remdups (map received_at (ceTimeSeries @ peTimeSeries)))"

text \<open>
  \<^verbatim>\<open>processOptionPrices\<close> (lines 162-277). The source mutates the trade day in place
  and writes to the console; the model returns the trade day and the warnings.
\<close>

definition processOptionPrices :: "Config \<Rightarrow> TradeDay \<Rightarrow> OptionData list \<Rightarrow> OptionData list
    \<Rightarrow> string \<Rightarrow> TradeDay \<times> warning list" where
  "processOptionPrices cfg td ceTimeSeries peTimeSeries d =
     (let st = eventLoop cfg d ceTimeSeries peTimeSeries (sortedTimes ceTimeSeries peTimeSeries)
                 \<lparr>tradeDay = td, adjustmentDone = False, console = []\<rparr>;
          (ps, ws) = exitRemaining ceTimeSeries peTimeSeries (positions (tradeDay st))
      in ((tradeDay st)\<lparr>positions := ps\<rparr>, console st @ ws))"

section \<open>Profit and loss of a day\<close>

text \<open>
  \<^verbatim>\<open>calculateDayPnL\<close> (lines 297-307): the loop with its running \<^verbatim>\<open>total\<close>. It
  also stores \<^verbatim>\<open>pnl\<close> in every position that has an exit price, so the model returns
  the positions with the total.
\<close>

fun calculateLoop :: "jsnum \<Rightarrow> Position list \<Rightarrow> jsnum \<Rightarrow> Position list \<times> jsnum" where
  "calculateLoop lot [] total_so_far = ([], total_so_far)"
| "calculateLoop lot (p # rest) total_so_far =
     (case exitPrice p of
        None \<Rightarrow>
          (let (rest', total') = calculateLoop lot rest total_so_far in (p # rest', total'))
      | Some x \<Rightarrow>
          (let pnl = jmul (jsub x (entryPrice p)) lot;
               (rest', total') = calculateLoop lot rest (jadd total_so_far pnl)
           in (p\<lparr>pnl := Some pnl\<rparr> # rest', total')))"

definition calculateDayPnL :: "Config \<Rightarrow> TradeDay \<Rightarrow> Position list \<times> jsnum" where
  "calculateDayPnL cfg td = calculateLoop (lotSize cfg) (positions td) (Fin 0)"

section \<open>One trading day\<close>

text \<open>The two positions opened at the entry time (lines 104-119).\<close>

definition initialPositions :: "Config \<Rightarrow> string \<Rightarrow> jsnum \<Rightarrow> jsnum \<Rightarrow> jsnum \<Rightarrow> Position list" where
  "initialPositions cfg d strike cePrice pePrice =
     [\<lparr>type = CE, entryPrice = cePrice, entryTime = entryDateTime cfg d, isActive = True,
        strikePrice = strike, exitPrice = None, exitTime = None, exitReason = None, pnl = None\<rparr>,
      \<lparr>type = PE, entryPrice = pePrice, entryTime = entryDateTime cfg d, isActive = True,
        strikePrice = strike, exitPrice = None, exitTime = None, exitReason = None, pnl = None\<rparr>]"

text \<open>The trade day before the simulation (lines 137-144).\<close>

definition initialTradeDay :: "Config \<Rightarrow> string \<Rightarrow> jsnum \<Rightarrow> jsnum \<Rightarrow> jsnum \<Rightarrow> TradeDay" where
  "initialTradeDay cfg d strike cePrice pePrice =
     \<lparr>date = d, atmStrike = strike,
      positions = initialPositions cfg d strike cePrice pePrice,
      totalPnl = Fin 0, madeAdjustment = False, dayPnlPercent = Fin 0\<rparr>"

text \<open>
  The part of \<^verbatim>\<open>processTradingDay\<close> that follows the queries (lines 104-152 without
  the queries of lines 122-135): the trade day is built, simulated and its totals are
  computed.
\<close>

definition simulateDay :: "Config \<Rightarrow> string \<Rightarrow> jsnum \<Rightarrow> jsnum \<Rightarrow> jsnum \<Rightarrow> OptionData list
    \<Rightarrow> OptionData list \<Rightarrow> TradeDay" where
  "simulateDay cfg d strike cePrice pePrice ceTimeSeries peTimeSeries =
     (let td1 = fst (processOptionPrices cfg (initialTradeDay cfg d strike cePrice pePrice)
                       ceTimeSeries peTimeSeries d);
          (ps, total_pnl) = calculateDayPnL cfg td1
      in td1\<lparr>positions := ps, totalPnl := total_pnl,
             dayPnlPercent :=
               jmul (jdiv total_pnl (jmul (jadd cePrice pePrice) (lotSize cfg))) (Fin 100)\<rparr>)"

text \<open>\<^verbatim>\<open>!atmStrike\<close> on a \<^verbatim>\<open>number | null\<close>: true for \<^verbatim>\<open>null\<close>, \<^verbatim>\<open>0\<close> and \<^verbatim>\<open>NaN\<close>.\<close>

fun noStrike :: "jsnum option \<Rightarrow> bool" where
  "noStrike None = True"
| "noStrike (Some x) = (\<not> truthy x)"

text \<open>
  \<^verbatim>\<open>processTradingDay\<close> (lines 71-153). The queries are awaited in the order of the
  source, and the first one that rejects rejects the whole call. Past the test of line
  75 the strike is a number, which \<open>the\<close> reads.
\<close>

definition processTradingDay :: "DataService \<Rightarrow> Config \<Rightarrow> string \<Rightarrow> fault + TradeDay" where
  "processTradingDay ds cfg d =
     (case getATMStrike ds d of
        Inl e \<Rightarrow> Inl e
      | Inr strike \<Rightarrow>
          if noStrike strike
          then Inr \<lparr>date = d, atmStrike = Fin 0, positions = [], totalPnl = Fin 0,
                     madeAdjustment = False, dayPnlPercent = Fin 0\<rparr>
          else
            (case getOptionPrice ds d (the strike) CE of
               Inl e \<Rightarrow> Inl e
             | Inr cePrice \<Rightarrow>
                 (case getOptionPrice ds d (the strike) PE of
                    Inl e \<Rightarrow> Inl e
                  | Inr pePrice \<Rightarrow>
                      (case getOptionPriceTimeSeries ds d (the strike) CE of
                         Inl e \<Rightarrow> Inl e
                       | Inr ceTimeSeries \<Rightarrow>
                           (case getOptionPriceTimeSeries ds d (the strike) PE of
                              Inl e \<Rightarrow> Inl e
                            | Inr peTimeSeries \<Rightarrow>
                                Inr (simulateDay cfg d (the strike) cePrice pePrice
                                       ceTimeSeries peTimeSeries))))))"

section \<open>The backtest runner\<close>

text \<open>The loop over the days (lines 47-57); a day that rejects ends the run.\<close>

fun runLoop :: "DataService \<Rightarrow> Config \<Rightarrow> string list \<Rightarrow> BacktestResult \<Rightarrow> fault + BacktestResult" where
  "runLoop ds cfg [] result = Inr result"
| "runLoop ds cfg (d # rest) result =
     (case processTradingDay ds cfg d of
        Inl e \<Rightarrow> Inl e
      | Inr td \<Rightarrow>
          runLoop ds cfg rest
            (if jge (totalPnl td) (Fin 0)
             then result\<lparr>days := days result @ [td],
                    totalPnl_all := jadd (totalPnl_all result) (totalPnl td),
                    winningDays := winningDays result + 1\<rparr>
             else result\<lparr>days := days result @ [td],
                    totalPnl_all := jadd (totalPnl_all result) (totalPnl td),
                    losingDays := losingDays result + 1\<rparr>))"

text \<open>\<^verbatim>\<open>runBacktest\<close> (lines 37-64).\<close>

definition runBacktest :: "DataService \<Rightarrow> Config \<Rightarrow> string list \<Rightarrow> fault + BacktestResult" where
  "runBacktest ds cfg dates =
     (case runLoop ds cfg dates
             \<lparr>days = [], totalPnl_all = Fin 0, winningDays = 0, losingDays = 0,
              winRate = Fin 0, averageDailyPnl = Fin 0\<rparr> of
        Inl e \<Rightarrow> Inl e
      | Inr result \<Rightarrow>
          (let numDays = length (days result)
           in Inr (result\<lparr>
                winRate := jmul (jdiv (Fin (real (winningDays result))) (Fin (real numDays))) (Fin 100),
                averageDailyPnl := jdiv (totalPnl_all result) (Fin (real numDays))\<rparr>)))"

section \<open>Example inputs\<close>

text \<open>
  The defaults of the strategy (individual stop-loss 25, combined target 25, combined
  stop-loss 10), the lot size of BANKNIFTY, entry at 09:25 and the adjustment cutoff at
  14:00, as milliseconds of the day.
\<close>

definition exampleConfig :: Config where
  "exampleConfig =
     \<lparr>SL_PERCENT = Fin 25, PNL_TARGET_PERCENT = Fin 25, PNL_SL_PERCENT = Fin 10,
      lotSize = Fin 30, entryDateTime = (\<lambda>d. 33900000), adjustmentDateTime = (\<lambda>d. 50400000)\<rparr>"

text \<open>A tick series written as (time, price) pairs.\<close>

definition ticks :: "(time \<times> real) list \<Rightarrow> OptionData list" where
  "ticks xs = map (\<lambda>(t, v). \<lparr>ltp = Fin v, received_at = t\<rparr>) xs"

text \<open>
  A data service with three days: on the first both legs enter at 100 and fall to 60
  at 09:30, on the second there is no index tick, on the third the strike is known but
  there is no option data at all.
\<close>

definition exampleService :: DataService where
  "exampleService =
     \<lparr>getATMStrike = (\<lambda>d. if d = ''2025-05-22'' then Inr None else Inr (Some (Fin 50000))),
      getOptionPrice = (\<lambda>d strike T. if d = ''2025-05-23'' then Inr (Fin 100) else Inr (Fin 0)),
      getOptionPriceTimeSeries =
        (\<lambda>d strike T. if d = ''2025-05-23'' then Inr (ticks [(34200000, 60)]) else Inr [])\<rparr>"

text \<open>
  A series for both legs of a day entered at 100 and 100: 60 at 09:30, 80 at 09:31 and
  70 at 09:32. At 09:30 both legs are closed and the adjustment pair is opened at 60.
  \<open>exampleAdjusted\<close> is the state of the loop after this first event.
\<close>

definition exampleSeries :: "OptionData list" where
  "exampleSeries = ticks [(34200000, 60), (34260000, 80), (34320000, 70)]"

definition exampleAdjusted :: LoopState where
  "exampleAdjusted =
     eventLoop exampleConfig ''2025-05-23'' exampleSeries exampleSeries [34200000]
       \<lparr>tradeDay = initialTradeDay exampleConfig ''2025-05-23'' (Fin 50000) (Fin 100) (Fin 100),
        adjustmentDone = False, console = []\<rparr>"

section \<open>Predicates used in the proofs\<close>

text \<open>
  \<open>legFor T leg ps\<close>: the reference \<open>leg\<close>, when defined, points into \<open>ps\<close> at a position
  of type \<open>T\<close>.
\<close>

definition legFor :: "optType \<Rightarrow> nat option \<Rightarrow> Position list \<Rightarrow> bool" where
  "legFor T leg ps = (case leg of None \<Rightarrow> True | Some i \<Rightarrow> i < length ps \<and> type (ps ! i) = T)"

text \<open>
  \<open>okPos\<close>: a position that is no longer active carries an exit reason and an exit
  price, and a position whose leg has an empty series has never been closed.
\<close>

definition okPos :: "OptionData list \<Rightarrow> OptionData list \<Rightarrow> Position \<Rightarrow> bool" where
  "okPos ceTimeSeries peTimeSeries p =
     ((isActive p \<or> (exitReason p \<noteq> None \<and> exitPrice p \<noteq> None)) \<and>
      ((if type p = CE then ceTimeSeries else peTimeSeries) \<noteq> [] \<or>
       (isActive p \<and> exitReason p = None \<and> exitPrice p = None)))"

text \<open>
  \<open>adjInv tys\<close>: the invariant of the event loop on a day that starts with positions of
  types \<open>tys\<close>. The flag of the trade day follows the local flag, and the positions are
  the initial ones, followed by one CE/PE pair only if the adjustment is done.
\<close>

definition adjInv :: "optType list \<Rightarrow> LoopState \<Rightarrow> bool" where
  "adjInv tys st =
     (madeAdjustment (tradeDay st) = adjustmentDone st \<and>
      (map type (positions (tradeDay st)) = tys \<or>
       (adjustmentDone st \<and> map type (positions (tradeDay st)) = tys @ [CE, PE])))"

text \<open>
  \<open>adjInvA tys\<close>: the invariant of the event loop when both legs have a tick at every
  event: the adjustment pair is there exactly when the adjustment is done.
\<close>

definition adjInvA :: "optType list \<Rightarrow> LoopState \<Rightarrow> bool" where
  "adjInvA tys st =
     (madeAdjustment (tradeDay st) = adjustmentDone st \<and>
      map type (positions (tradeDay st)) = (if adjustmentDone st then tys @ [CE, PE] else tys))"

text \<open>
  \<open>resInv\<close>: the invariant of the runner's loop: the counters and the total are those of
  the days collected so far.
\<close>

definition resInv :: "BacktestResult \<Rightarrow> bool" where
  "resInv r =
     (winningDays r = length (filter (\<lambda>td. jge (totalPnl td) (Fin 0)) (days r)) \<and>
      losingDays r = length (filter (\<lambda>td. \<not> jge (totalPnl td) (Fin 0)) (days r)) \<and>
      totalPnl_all r = foldl jadd (Fin 0) (map totalPnl (days r)))"

section \<open>Properties of the exits of one event\<close>

lemma findIndex_Some: "findIndex P xs = Some i \<Longrightarrow> i < length xs \<and> P (xs ! i)"
proof (induction xs arbitrary: i)
  case Nil
  then show ?case by simp
next
  case (Cons x xs)
  then show ?case by (cases "P x") auto
qed

lemma findIndex_legFor: "legFor T (findIndex (\<lambda>p. type p = T \<and> isActive p) ps) ps"
  by (auto simp: legFor_def dest: findIndex_Some split: option.splits)

lemma find_Some_nonempty: "find P xs = Some x \<Longrightarrow> xs \<noteq> []"
  by (cases xs) auto

lemma exitPosition_type: "type (exitPosition p price t r) = type p"
  by (simp add: exitPosition_def)

lemma exitPosition_entryPrice: "entryPrice (exitPosition p price t r) = entryPrice p"
  by (simp add: exitPosition_def)

lemma map_type_update:
  "i < length ps \<Longrightarrow> map type (ps[i := exitPosition (ps ! i) price t r]) = map type ps"
  by (simp add: map_update list_update_same_conv exitPosition_type)

lemma map_entryPrice_update:
  "i < length ps \<Longrightarrow> map entryPrice (ps[i := exitPosition (ps ! i) price t r]) = map entryPrice ps"
  by (simp add: map_update list_update_same_conv exitPosition_entryPrice)

lemma legFor_types: "map type ps' = map type ps \<Longrightarrow> legFor T leg ps \<Longrightarrow> legFor T leg ps'"
proof (cases leg)
  case None
  then show ?thesis by (simp add: legFor_def)
next
  case (Some i)
  assume eq: "map type ps' = map type ps" and l: "legFor T leg ps"
  from eq have len: "length ps' = length ps" by (metis length_map)
  from l Some have i: "i < length ps" and ty: "type (ps ! i) = T" by (simp_all add: legFor_def)
  have "type (ps' ! i) = map type ps' ! i" using i len by simp
  also have "\<dots> = type (ps ! i)" using eq i by simp
  finally show ?thesis using Some i len ty by (simp add: legFor_def)
qed

lemma exitLeg_types: "legFor T leg ps \<Longrightarrow> map type (exitLeg leg data t r ps) = map type ps"
  by (cases leg; cases data) (simp_all add: map_type_update legFor_def)

lemma individualSL_types: "legFor T leg ps \<Longrightarrow> map type (individualSL cfg leg data t ps) = map type ps"
  by (cases leg; cases data) (simp_all add: map_type_update legFor_def Let_def)

lemma exitLeg_entryPrice: "legFor T leg ps \<Longrightarrow> map entryPrice (exitLeg leg data t r ps) = map entryPrice ps"
  by (cases leg; cases data) (simp_all add: map_entryPrice_update legFor_def)

lemma individualSL_entryPrice:
  "legFor T leg ps \<Longrightarrow> map entryPrice (individualSL cfg leg data t ps) = map entryPrice ps"
  by (cases leg; cases data) (simp_all add: map_entryPrice_update legFor_def Let_def)

lemma combinedExit_cases:
  "combinedExit cfg ce pe ceData peData t ps = ps \<or>
   (\<exists>r. combinedExit cfg ce pe ceData peData t ps = exitLeg pe peData t r (exitLeg ce ceData t r ps))"
  by (auto simp: combinedExit_def Let_def)

lemma combinedExit_types:
  assumes "legFor CE ce ps" and "legFor PE pe ps"
  shows "map type (combinedExit cfg ce pe ceData peData t ps) = map type ps"
proof -
  have "map type (exitLeg pe peData t r (exitLeg ce ceData t r ps)) = map type ps" for r
  proof -
    have a: "map type (exitLeg ce ceData t r ps) = map type ps"
      using assms(1) by (rule exitLeg_types)
    then have "legFor PE pe (exitLeg ce ceData t r ps)"
      using assms(2) by (rule legFor_types)
    then show ?thesis using a by (simp add: exitLeg_types)
  qed
  then show ?thesis using combinedExit_cases [of cfg ce pe ceData peData t ps] by auto
qed

lemma combinedExit_entryPrice:
  assumes "legFor CE ce ps" and "legFor PE pe ps"
  shows "map entryPrice (combinedExit cfg ce pe ceData peData t ps) = map entryPrice ps"
proof -
  have "map entryPrice (exitLeg pe peData t r (exitLeg ce ceData t r ps)) = map entryPrice ps" for r
  proof -
    have "legFor PE pe (exitLeg ce ceData t r ps)"
      using assms by (simp add: legFor_types exitLeg_types)
    then show ?thesis using assms(1) by (simp add: exitLeg_entryPrice)
  qed
  then show ?thesis using combinedExit_cases [of cfg ce pe ceData peData t ps] by auto
qed

lemma applyExits_types:
  assumes "legFor CE ce ps" and "legFor PE pe ps"
  shows "map type (applyExits cfg ce pe ceData peData t ps) = map type ps"
proof -
  let ?ps1 = "combinedExit cfg ce pe ceData peData t ps"
  let ?ps2 = "individualSL cfg ce ceData t ?ps1"
  have 1: "map type ?ps1 = map type ps" using assms by (rule combinedExit_types)
  then have "legFor CE ce ?ps1" using assms(1) by (rule legFor_types)
  then have 2: "map type ?ps2 = map type ps" using 1 by (simp add: individualSL_types)
  then have "legFor PE pe ?ps2" using assms(2) by (rule legFor_types)
  then have "map type (individualSL cfg pe peData t ?ps2) = map type ps"
    using 2 by (simp add: individualSL_types)
  then show ?thesis by (simp add: applyExits_def Let_def)
qed

lemma applyExits_entryPrice:
  assumes "legFor CE ce ps" and "legFor PE pe ps"
  shows "map entryPrice (applyExits cfg ce pe ceData peData t ps) = map entryPrice ps"
proof -
  let ?ps1 = "combinedExit cfg ce pe ceData peData t ps"
  let ?ps2 = "individualSL cfg ce ceData t ?ps1"
  have t1: "map type ?ps1 = map type ps" using assms by (rule combinedExit_types)
  have e1: "map entryPrice ?ps1 = map entryPrice ps" using assms by (rule combinedExit_entryPrice)
  have l1: "legFor CE ce ?ps1" using t1 assms(1) by (rule legFor_types)
  have t2: "map type ?ps2 = map type ps" using l1 t1 by (simp add: individualSL_types)
  have e2: "map entryPrice ?ps2 = map entryPrice ps" using l1 e1 by (simp add: individualSL_entryPrice)
  have "legFor PE pe ?ps2" using t2 assms(2) by (rule legFor_types)
  then have "map entryPrice (individualSL cfg pe peData t ?ps2) = map entryPrice ps"
    using e2 by (simp add: individualSL_entryPrice)
  then show ?thesis by (simp add: applyExits_def Let_def)
qed

lemma okPos_exit:
  "(if type p = CE then ceTS else peTS) \<noteq> [] \<Longrightarrow> okPos ceTS peTS (exitPosition p price t r)"
  by (simp add: okPos_def exitPosition_def)

lemma okPos_update:
  assumes "list_all (okPos ceTS peTS) ps" and "i < length ps"
    and "(if type (ps ! i) = CE then ceTS else peTS) \<noteq> []"
  shows "list_all (okPos ceTS peTS) (ps[i := exitPosition (ps ! i) price t r])"
proof -
  have "okPos ceTS peTS (exitPosition (ps ! i) price t r)"
    using assms(3) by (rule okPos_exit)
  moreover have "set (ps[i := exitPosition (ps ! i) price t r])
      \<subseteq> insert (exitPosition (ps ! i) price t r) (set ps)"
    by (rule set_update_subset_insert)
  ultimately show ?thesis using assms(1) by (auto simp: list_all_iff)
qed

lemma exitLeg_okPos:
  assumes "list_all (okPos ceTS peTS) ps" and "legFor T leg ps"
    and "data \<noteq> None \<longrightarrow> (if T = CE then ceTS else peTS) \<noteq> []"
  shows "list_all (okPos ceTS peTS) (exitLeg leg data t r ps)"
proof (cases leg)
  case None
  then show ?thesis using assms(1) by simp
next
  case (Some i)
  show ?thesis
  proof (cases data)
    case None
    then show ?thesis using Some assms(1) by simp
  next
    case (Some d)
    from \<open>leg = Some i\<close> assms(2) have i: "i < length ps" and ty: "type (ps ! i) = T"
      by (simp_all add: legFor_def)
    from Some assms(3) ty have "(if type (ps ! i) = CE then ceTS else peTS) \<noteq> []" by simp
    with assms(1) i have "list_all (okPos ceTS peTS) (ps[i := exitPosition (ps ! i) (ltp d) t r])"
      by (rule okPos_update)
    then show ?thesis using Some \<open>leg = Some i\<close> by simp
  qed
qed

lemma individualSL_cases:
  "individualSL cfg leg data t ps = ps \<or> individualSL cfg leg data t ps = exitLeg leg data t SL ps"
  by (cases leg; cases data) (simp_all add: Let_def)

lemma individualSL_okPos:
  assumes "list_all (okPos ceTS peTS) ps" and "legFor T leg ps"
    and "data \<noteq> None \<longrightarrow> (if T = CE then ceTS else peTS) \<noteq> []"
  shows "list_all (okPos ceTS peTS) (individualSL cfg leg data t ps)"
  using individualSL_cases [of cfg leg data t ps] assms(1) exitLeg_okPos [OF assms, of t SL]
  by auto

lemma combinedExit_okPos:
  assumes "list_all (okPos ceTS peTS) ps" and "legFor CE ce ps" and "legFor PE pe ps"
    and "ceData \<noteq> None \<longrightarrow> ceTS \<noteq> []" and "peData \<noteq> None \<longrightarrow> peTS \<noteq> []"
  shows "list_all (okPos ceTS peTS) (combinedExit cfg ce pe ceData peData t ps)"
proof -
  have "list_all (okPos ceTS peTS) (exitLeg pe peData t r (exitLeg ce ceData t r ps))" for r
  proof -
    have 1: "list_all (okPos ceTS peTS) (exitLeg ce ceData t r ps)"
      by (rule exitLeg_okPos [where T = CE]) (use assms(1,2,4) in simp_all)
    have 2: "legFor PE pe (exitLeg ce ceData t r ps)"
      using assms(2,3) by (simp add: legFor_types exitLeg_types)
    show ?thesis by (rule exitLeg_okPos [where T = PE]) (use 1 2 assms(5) in simp_all)
  qed
  then show ?thesis
    using combinedExit_cases [of cfg ce pe ceData peData t ps] assms(1) by auto
qed

lemma applyExits_okPos:
  assumes "list_all (okPos ceTS peTS) ps" and "legFor CE ce ps" and "legFor PE pe ps"
    and "ceData \<noteq> None \<longrightarrow> ceTS \<noteq> []" and "peData \<noteq> None \<longrightarrow> peTS \<noteq> []"
  shows "list_all (okPos ceTS peTS) (applyExits cfg ce pe ceData peData t ps)"
proof -
  let ?ps1 = "combinedExit cfg ce pe ceData peData t ps"
  let ?ps2 = "individualSL cfg ce ceData t ?ps1"
  have t1: "map type ?ps1 = map type ps" using assms(2,3) by (rule combinedExit_types)
  have o1: "list_all (okPos ceTS peTS) ?ps1" using assms by (rule combinedExit_okPos)
  have l1: "legFor CE ce ?ps1" using t1 assms(2) by (rule legFor_types)
  have t2: "map type ?ps2 = map type ps" using l1 t1 by (simp add: individualSL_types)
  have o2: "list_all (okPos ceTS peTS) ?ps2"
    by (rule individualSL_okPos [where T = CE]) (use o1 l1 assms(4) in simp_all)
  have l2: "legFor PE pe ?ps2" using t2 assms(3) by (rule legFor_types)
  have "list_all (okPos ceTS peTS) (individualSL cfg pe peData t ?ps2)"
    by (rule individualSL_okPos [where T = PE]) (use o2 l2 assms(5) in simp_all)
  then show ?thesis by (simp add: applyExits_def Let_def)
qed

lemma adjust_cases:
  "adjust cfg d ceData peData t ps st = st\<lparr>tradeDay := (tradeDay st)\<lparr>positions := ps\<rparr>\<rparr> \<or>
   (\<not> adjustmentDone st \<and> t < adjustmentDateTime cfg d \<and> list_all (\<lambda>p. \<not> isActive p) ps \<and>
    ((\<exists>c p. ceData = Some c \<and> peData = Some p \<and>
        adjust cfg d ceData peData t ps st =
          st\<lparr>tradeDay := (tradeDay st)\<lparr>positions :=
                 ps @ adjustmentPair (ltp c) (ltp p) t (atmStrike (tradeDay st)),
               madeAdjustment := True\<rparr>,
             adjustmentDone := True\<rparr>) \<or>
     ((ceData = None \<or> peData = None) \<and>
        adjust cfg d ceData peData t ps st =
          st\<lparr>tradeDay := (tradeDay st)\<lparr>positions := ps, madeAdjustment := True\<rparr>,
             adjustmentDone := True,
             console := console st @ [SkippingAdjustment]\<rparr>)))"
  by (cases ceData; cases peData) (simp_all add: adjust_def)

lemma adjustmentPair_types: "map type (adjustmentPair a b t s) = [CE, PE]"
  by (simp add: adjustmentPair_def)

lemma adjust_adjInv:
  assumes "adjInv tys st" and "map type ps = map type (positions (tradeDay st))"
  shows "adjInv tys (adjust cfg d ceData peData t ps st)"
  using adjust_cases [of cfg d ceData peData t ps st] assms
  by (auto simp: adjInv_def adjustmentPair_types)

lemma processEvent_adjInv:
  assumes "adjInv tys st" and "processEvent cfg d ceTS peTS t st = Some st'"
  shows "adjInv tys st'"
proof -
  let ?ps = "positions (tradeDay st)"
  let ?ce = "findIndex (\<lambda>p. type p = CE \<and> isActive p) ?ps"
  let ?pe = "findIndex (\<lambda>p. type p = PE \<and> isActive p) ?ps"
  let ?ceData = "find (\<lambda>x. received_at x = t) ceTS"
  let ?peData = "find (\<lambda>x. received_at x = t) peTS"
  from assms(2) have st': "st' = adjust cfg d ?ceData ?peData t
      (applyExits cfg ?ce ?pe ?ceData ?peData t ?ps) st"
    by (simp add: processEvent_def Let_def split: if_splits)
  have "map type (applyExits cfg ?ce ?pe ?ceData ?peData t ?ps) = map type ?ps"
    by (intro applyExits_types findIndex_legFor)
  with assms(1) show ?thesis unfolding st' by (rule adjust_adjInv)
qed

lemma eventLoop_induct:
  assumes "I st"
    and "\<And>t s s'. I s \<Longrightarrow> t \<in> set ts \<Longrightarrow> processEvent cfg d ceTS peTS t s = Some s' \<Longrightarrow> I s'"
  shows "I (eventLoop cfg d ceTS peTS ts st)"
  using assms
proof (induction ts arbitrary: st)
  case Nil
  then show ?case by simp
next
  case (Cons t ts)
  show ?case
  proof (cases "processEvent cfg d ceTS peTS t st")
    case None
    then show ?thesis using Cons.prems(1) by simp
  next
    case (Some s')
    have "I s'" using Cons.prems(1) _ Some by (rule Cons.prems(2)) simp
    then have "I (eventLoop cfg d ceTS peTS ts s')"
      by (rule Cons.IH) (auto intro: Cons.prems(2))
    then show ?thesis using Some by simp
  qed
qed

lemma eventLoop_adjInv:
  "adjInv tys st \<Longrightarrow> adjInv tys (eventLoop cfg d ceTS peTS ts st)"
  by (rule eventLoop_induct) (auto intro: processEvent_adjInv)

lemma adjust_okPos:
  assumes "list_all (okPos ceTS peTS) ps"
    and "ceData \<noteq> None \<longrightarrow> ceTS \<noteq> []" and "peData \<noteq> None \<longrightarrow> peTS \<noteq> []"
  shows "list_all (okPos ceTS peTS) (positions (tradeDay (adjust cfg d ceData peData t ps st)))"
  using adjust_cases [of cfg d ceData peData t ps st] assms
  by (auto simp: adjustmentPair_def okPos_def)

lemma processEvent_okPos:
  assumes "list_all (okPos ceTS peTS) (positions (tradeDay st))"
    and "processEvent cfg d ceTS peTS t st = Some st'"
  shows "list_all (okPos ceTS peTS) (positions (tradeDay st'))"
proof -
  let ?ps = "positions (tradeDay st)"
  let ?ce = "findIndex (\<lambda>p. type p = CE \<and> isActive p) ?ps"
  let ?pe = "findIndex (\<lambda>p. type p = PE \<and> isActive p) ?ps"
  let ?ceData = "find (\<lambda>x. received_at x = t) ceTS"
  let ?peData = "find (\<lambda>x. received_at x = t) peTS"
  from assms(2) have st': "st' = adjust cfg d ?ceData ?peData t
      (applyExits cfg ?ce ?pe ?ceData ?peData t ?ps) st"
    by (simp add: processEvent_def Let_def split: if_splits)
  have c: "?ceData \<noteq> None \<longrightarrow> ceTS \<noteq> []" and p: "?peData \<noteq> None \<longrightarrow> peTS \<noteq> []"
    by (auto dest: find_Some_nonempty)
  have "list_all (okPos ceTS peTS) (applyExits cfg ?ce ?pe ?ceData ?peData t ?ps)"
    using assms(1) findIndex_legFor findIndex_legFor c p by (rule applyExits_okPos)
  then show ?thesis unfolding st' using c p by (rule adjust_okPos)
qed

lemma eventLoop_okPos:
  "list_all (okPos ceTS peTS) (positions (tradeDay st)) \<Longrightarrow>
   list_all (okPos ceTS peTS) (positions (tradeDay (eventLoop cfg d ceTS peTS ts st)))"
  by (rule eventLoop_induct [where I = "\<lambda>s. list_all (okPos ceTS peTS) (positions (tradeDay s))"])
     (auto intro: processEvent_okPos)

lemma exitRemaining_fst:
  "fst (exitRemaining ceTS peTS ps) = map (\<lambda>pos. fst (eodExit ceTS peTS pos)) ps"
  by (induction ps) (simp_all add: split_beta Let_def)

lemma exitRemaining_snd:
  "snd (exitRemaining ceTS peTS ps) = concat (map (\<lambda>pos. snd (eodExit ceTS peTS pos)) ps)"
  by (induction ps) (simp_all add: split_beta Let_def)

lemma processOptionPrices_positions:
  "positions (fst (processOptionPrices cfg td ceTS peTS d)) =
     map (\<lambda>pos. fst (eodExit ceTS peTS pos))
       (positions (tradeDay (eventLoop cfg d ceTS peTS (sortedTimes ceTS peTS)
          \<lparr>tradeDay = td, adjustmentDone = False, console = []\<rparr>)))"
  by (simp add: processOptionPrices_def Let_def split_beta exitRemaining_fst)

lemma processOptionPrices_madeAdjustment:
  "madeAdjustment (fst (processOptionPrices cfg td ceTS peTS d)) =
     madeAdjustment (tradeDay (eventLoop cfg d ceTS peTS (sortedTimes ceTS peTS)
          \<lparr>tradeDay = td, adjustmentDone = False, console = []\<rparr>))"
  by (simp add: processOptionPrices_def Let_def split_beta)

lemma eodExit_type: "type (fst (eodExit ceTS peTS pos)) = type pos"
  by (simp add: eodExit_def Let_def exitPosition_type)

lemma eodExit_entryPrice: "entryPrice (fst (eodExit ceTS peTS pos)) = entryPrice pos"
  by (simp add: eodExit_def Let_def exitPosition_entryPrice)

lemma calculateLoop_fst:
  "fst (calculateLoop lot ps acc) =
     map (\<lambda>p. case exitPrice p of None \<Rightarrow> p
               | Some x \<Rightarrow> p\<lparr>pnl := Some (jmul (jsub x (entryPrice p)) lot)\<rparr>) ps"
  by (induction ps arbitrary: acc) (simp_all add: split_beta Let_def split: option.splits)

lemma calculateLoop_snd:
  "snd (calculateLoop lot ps acc) =
     foldl jadd acc (map (\<lambda>p. jmul (jsub (the (exitPrice p)) (entryPrice p)) lot)
                       (filter (\<lambda>p. exitPrice p \<noteq> None) ps))"
  by (induction ps arbitrary: acc) (simp_all add: split_beta Let_def split: option.splits)

lemma simulateDay_positions:
  "positions (simulateDay cfg d strike cePrice pePrice ceTS peTS) =
     fst (calculateLoop (lotSize cfg)
       (positions (fst (processOptionPrices cfg (initialTradeDay cfg d strike cePrice pePrice)
          ceTS peTS d))) (Fin 0))"
  by (simp add: simulateDay_def calculateDayPnL_def Let_def split_beta)

lemma simulateDay_totalPnl:
  "totalPnl (simulateDay cfg d strike cePrice pePrice ceTS peTS) =
     snd (calculateLoop (lotSize cfg)
       (positions (fst (processOptionPrices cfg (initialTradeDay cfg d strike cePrice pePrice)
          ceTS peTS d))) (Fin 0))"
  by (simp add: simulateDay_def calculateDayPnL_def Let_def split_beta)

lemma simulateDay_madeAdjustment:
  "madeAdjustment (simulateDay cfg d strike cePrice pePrice ceTS peTS) =
     madeAdjustment (fst (processOptionPrices cfg (initialTradeDay cfg d strike cePrice pePrice)
          ceTS peTS d))"
  by (simp add: simulateDay_def calculateDayPnL_def Let_def split_beta)

lemma calculateLoop_types: "map type (fst (calculateLoop lot ps acc)) = map type ps"
  by (simp add: calculateLoop_fst split: option.splits)

lemma initial_adjInv:
  "adjInv [CE, PE] \<lparr>tradeDay = initialTradeDay cfg d strike cePrice pePrice,
      adjustmentDone = False, console = []\<rparr>"
  by (simp add: adjInv_def initialTradeDay_def initialPositions_def)

lemma simulateDay_types:
  "map type (positions (simulateDay cfg d strike cePrice pePrice ceTS peTS)) =
     map type (positions (tradeDay (eventLoop cfg d ceTS peTS (sortedTimes ceTS peTS)
        \<lparr>tradeDay = initialTradeDay cfg d strike cePrice pePrice,
         adjustmentDone = False, console = []\<rparr>)))"
  by (simp add: simulateDay_positions calculateLoop_types processOptionPrices_positions
      eodExit_type comp_def)

lemma processEvent_done:
  assumes "adjustmentDone st \<and> map type (positions (tradeDay st)) = tys"
    and "processEvent cfg d ceTS peTS t st = Some st'"
  shows "adjustmentDone st' \<and> map type (positions (tradeDay st')) = tys"
proof -
  let ?ps = "positions (tradeDay st)"
  let ?ce = "findIndex (\<lambda>p. type p = CE \<and> isActive p) ?ps"
  let ?pe = "findIndex (\<lambda>p. type p = PE \<and> isActive p) ?ps"
  let ?ceData = "find (\<lambda>x. received_at x = t) ceTS"
  let ?peData = "find (\<lambda>x. received_at x = t) peTS"
  let ?ps3 = "applyExits cfg ?ce ?pe ?ceData ?peData t ?ps"
  from assms(2) have st': "st' = adjust cfg d ?ceData ?peData t ?ps3 st"
    by (simp add: processEvent_def Let_def split: if_splits)
  have "map type ?ps3 = map type ?ps"
    by (intro applyExits_types findIndex_legFor)
  moreover have "adjust cfg d ?ceData ?peData t ?ps3 st = st\<lparr>tradeDay := (tradeDay st)\<lparr>positions := ?ps3\<rparr>\<rparr>"
    using assms(1) by (simp add: adjust_def)
  ultimately show ?thesis using assms(1) st' by simp
qed

lemma find_received_at:
  "t \<in> set (map received_at xs) \<Longrightarrow> find (\<lambda>x. received_at x = t) xs \<noteq> None"
  by (auto simp: find_None_iff)

lemma set_sortedTimes:
  "set (sortedTimes ceTS peTS) = set (map received_at ceTS) \<union> set (map received_at peTS)"
  by (simp add: sortedTimes_def)

lemma adjust_adjInvA:
  assumes "adjInvA tys st" and "map type ps = map type (positions (tradeDay st))"
    and "ceData \<noteq> None" and "peData \<noteq> None"
  shows "adjInvA tys (adjust cfg d ceData peData t ps st)"
  using adjust_cases [of cfg d ceData peData t ps st] assms
  by (auto simp: adjInvA_def adjustmentPair_types)

lemma processEvent_adjInvA:
  assumes "adjInvA tys st" and "processEvent cfg d ceTS peTS t st = Some st'"
    and "t \<in> set (map received_at ceTS)" and "t \<in> set (map received_at peTS)"
  shows "adjInvA tys st'"
proof -
  let ?ps = "positions (tradeDay st)"
  let ?ce = "findIndex (\<lambda>p. type p = CE \<and> isActive p) ?ps"
  let ?pe = "findIndex (\<lambda>p. type p = PE \<and> isActive p) ?ps"
  let ?ceData = "find (\<lambda>x. received_at x = t) ceTS"
  let ?peData = "find (\<lambda>x. received_at x = t) peTS"
  from assms(2) have st': "st' = adjust cfg d ?ceData ?peData t
      (applyExits cfg ?ce ?pe ?ceData ?peData t ?ps) st"
    by (simp add: processEvent_def Let_def split: if_splits)
  have "map type (applyExits cfg ?ce ?pe ?ceData ?peData t ?ps) = map type ?ps"
    by (intro applyExits_types findIndex_legFor)
  with assms(1) show ?thesis unfolding st'
    using find_received_at [OF assms(3)] find_received_at [OF assms(4)]
    by (rule adjust_adjInvA)
qed

lemma eventLoop_adjInvA:
  assumes "adjInvA tys st" and "set ts \<subseteq> set (map received_at ceTS)"
    and "set ts \<subseteq> set (map received_at peTS)"
  shows "adjInvA tys (eventLoop cfg d ceTS peTS ts st)"
  using assms(1)
proof (rule eventLoop_induct)
  fix t s s'
  assume "adjInvA tys s" and "t \<in> set ts" and "processEvent cfg d ceTS peTS t s = Some s'"
  then show "adjInvA tys s'"
    using assms(2,3) by (intro processEvent_adjInvA [of tys s cfg d ceTS peTS t s']) auto
qed

lemma eodExit_okPos:
  assumes "okPos ceTS peTS q"
  shows "((if type q = CE then ceTS else peTS) \<noteq> [] \<longrightarrow>
            \<not> isActive (fst (eodExit ceTS peTS q)) \<and> exitReason (fst (eodExit ceTS peTS q)) \<noteq> None) \<and>
         ((if type q = CE then ceTS else peTS) = [] \<longrightarrow>
            fst (eodExit ceTS peTS q) = q \<and> isActive q \<and> exitReason q = None \<and> exitPrice q = None \<and>
            snd (eodExit ceTS peTS q) = [NoTimeSeries (type q)])"
  using assms by (auto simp: okPos_def eodExit_def exitPosition_def Let_def)

lemma initial_okPos:
  "list_all (okPos ceTS peTS) (positions (initialTradeDay cfg d strike cePrice pePrice))"
  by (simp add: okPos_def initialTradeDay_def initialPositions_def)

lemma processOptionPrices_console:
  "set (concat (map (\<lambda>pos. snd (eodExit ceTS peTS pos))
       (positions (tradeDay (eventLoop cfg d ceTS peTS (sortedTimes ceTS peTS)
          \<lparr>tradeDay = td, adjustmentDone = False, console = []\<rparr>)))))
   \<subseteq> set (snd (processOptionPrices cfg td ceTS peTS d))"
  by (simp add: processOptionPrices_def Let_def split_beta exitRemaining_snd)

lemma processEvent_entryPrefix:
  assumes "\<exists>rest. map entryPrice (positions (tradeDay st)) = es @ rest"
    and "processEvent cfg d ceTS peTS t st = Some st'"
  shows "\<exists>rest. map entryPrice (positions (tradeDay st')) = es @ rest"
proof -
  let ?ps = "positions (tradeDay st)"
  let ?ce = "findIndex (\<lambda>p. type p = CE \<and> isActive p) ?ps"
  let ?pe = "findIndex (\<lambda>p. type p = PE \<and> isActive p) ?ps"
  let ?ceData = "find (\<lambda>x. received_at x = t) ceTS"
  let ?peData = "find (\<lambda>x. received_at x = t) peTS"
  let ?ps3 = "applyExits cfg ?ce ?pe ?ceData ?peData t ?ps"
  from assms(2) have st': "st' = adjust cfg d ?ceData ?peData t ?ps3 st"
    by (simp add: processEvent_def Let_def split: if_splits)
  have "map entryPrice ?ps3 = map entryPrice ?ps"
    by (intro applyExits_entryPrice findIndex_legFor)
  with assms(1) obtain rest where r: "map entryPrice ?ps3 = es @ rest" by auto
  show ?thesis
    using adjust_cases [of cfg d ?ceData ?peData t ?ps3 st] r unfolding st' by auto
qed

lemma eventLoop_entryPrefix:
  "\<exists>rest. map entryPrice (positions (tradeDay st)) = es @ rest \<Longrightarrow>
   \<exists>rest. map entryPrice (positions (tradeDay (eventLoop cfg d ceTS peTS ts st))) = es @ rest"
  by (rule eventLoop_induct
        [where I = "\<lambda>s. \<exists>rest. map entryPrice (positions (tradeDay s)) = es @ rest"])
     (auto intro: processEvent_entryPrefix)

lemma calculateLoop_entryPrice: "map entryPrice (fst (calculateLoop lot ps acc)) = map entryPrice ps"
  by (simp add: calculateLoop_fst split: option.splits)

lemma simulateDay_entryPrices:
  "\<exists>rest. map entryPrice (positions (simulateDay cfg d strike cePrice pePrice ceTS peTS))
      = [cePrice, pePrice] @ rest"
proof -
  have "\<exists>rest. map entryPrice (positions (tradeDay
      \<lparr>tradeDay = initialTradeDay cfg d strike cePrice pePrice,
       adjustmentDone = False, console = []\<rparr>)) = [cePrice, pePrice] @ rest"
    by (simp add: initialTradeDay_def initialPositions_def)
  then have "\<exists>rest. map entryPrice (positions (tradeDay (eventLoop cfg d ceTS peTS
      (sortedTimes ceTS peTS) \<lparr>tradeDay = initialTradeDay cfg d strike cePrice pePrice,
       adjustmentDone = False, console = []\<rparr>))) = [cePrice, pePrice] @ rest"
    by (rule eventLoop_entryPrefix)
  then show ?thesis
    by (simp add: simulateDay_positions calculateLoop_entryPrice processOptionPrices_positions
        eodExit_entryPrice comp_def)
qed

lemma calculateLoop_filter:
  "map (\<lambda>p. jmul (jsub (the (exitPrice p)) (entryPrice p)) lot)
     (filter (\<lambda>p. exitPrice p \<noteq> None) (fst (calculateLoop lot ps acc))) =
   map (\<lambda>p. jmul (jsub (the (exitPrice p)) (entryPrice p)) lot)
     (filter (\<lambda>p. exitPrice p \<noteq> None) ps)"
  unfolding calculateLoop_fst by (induction ps) (auto split: option.splits)

lemma calculateLoop_pnl:
  "p \<in> set (fst (calculateLoop lot ps acc)) \<Longrightarrow> exitPrice p \<noteq> None \<Longrightarrow>
   pnl p = Some (jmul (jsub (the (exitPrice p)) (entryPrice p)) lot)"
  unfolding calculateLoop_fst by (auto split: option.splits)

lemma simulateDay_dayPnlPercent:
  "dayPnlPercent (simulateDay cfg d strike cePrice pePrice ceTS peTS) =
     jmul (jdiv (totalPnl (simulateDay cfg d strike cePrice pePrice ceTS peTS))
                (jmul (jadd cePrice pePrice) (lotSize cfg))) (Fin 100)"
  by (simp add: simulateDay_def Let_def split_beta)

lemma runLoop_resInv:
  assumes "resInv r" and "runLoop ds cfg dl r = Inr r'"
  shows "resInv r' \<and>
         map Inr (days r') = map Inr (days r) @ map (processTradingDay ds cfg) dl"
  using assms
proof (induction dl arbitrary: r)
  case Nil
  then show ?case by simp
next
  case (Cons d rest)
  from Cons.prems(2) obtain td where td: "processTradingDay ds cfg d = Inr td"
    by (cases "processTradingDay ds cfg d") simp_all
  let ?r1 = "if jge (totalPnl td) (Fin 0)
             then r\<lparr>days := days r @ [td],
                    totalPnl_all := jadd (totalPnl_all r) (totalPnl td),
                    winningDays := winningDays r + 1\<rparr>
             else r\<lparr>days := days r @ [td],
                    totalPnl_all := jadd (totalPnl_all r) (totalPnl td),
                    losingDays := losingDays r + 1\<rparr>"
  from Cons.prems(2) td have run: "runLoop ds cfg rest ?r1 = Inr r'" by simp
  have inv: "resInv ?r1" using Cons.prems(1) by (simp add: resInv_def)
  have d1: "days ?r1 = days r @ [td]" by simp
  from Cons.IH [OF inv run] show ?case
    unfolding d1 using td by simp
qed

lemma eventLoop_no_ticks: "eventLoop cfg d [] [] (sortedTimes [] []) st = st"
  by (simp add: sortedTimes_def)

lemma simulateDay_no_ticks:
  "simulateDay cfg d strike cePrice pePrice [] [] =
     \<lparr>date = d, atmStrike = strike, positions = initialPositions cfg d strike cePrice pePrice,
      totalPnl = Fin 0, madeAdjustment = False,
      dayPnlPercent = jmul (jdiv (Fin 0) (jmul (jadd cePrice pePrice) (lotSize cfg))) (Fin 100)\<rparr>"
  by (simp add: simulateDay_def processOptionPrices_def eventLoop_no_ticks initialTradeDay_def
      initialPositions_def eodExit_def calculateDayPnL_def Let_def)

lemma jge_NaN_right: "\<not> jge x NaN"
  by (cases x) simp_all

lemma jadd_not_NZero: "x \<noteq> NZero \<Longrightarrow> jadd x y \<noteq> NZero"
  by (cases x; cases y) simp_all

lemma orZero_not_NZero: "orZero v \<noteq> NZero"
  by (cases v) (auto elim: truthy.elims)

lemma totalChange_zero_entry:
  "totalChange (Fin c) (Fin 0) = (if c = 0 then NaN else if 0 < c then PInf else NInf)"
  by (simp add: totalChange_def jsub_def jdiv_def jmul_def infOf_def)

lemma change_zero_by_zero:
  "isZero e \<Longrightarrow> isZero l \<Longrightarrow> jmul (jdiv (jsub l e) e) (Fin 100) = NaN"
  by (cases e; cases l) (simp_all add: jsub_def jdiv_def jmul_def)

lemma simulateDay_totals:
  "totalPnl (simulateDay cfg d strike cePrice pePrice ceTS peTS) =
     foldl jadd (Fin 0)
       (map (\<lambda>p. jmul (jsub (the (exitPrice p)) (entryPrice p)) (lotSize cfg))
          (filter (\<lambda>p. exitPrice p \<noteq> None)
             (positions (simulateDay cfg d strike cePrice pePrice ceTS peTS)))) \<and>
   (\<forall>p \<in> set (positions (simulateDay cfg d strike cePrice pePrice ceTS peTS)).
      exitPrice p \<noteq> None \<longrightarrow>
      pnl p = Some (jmul (jsub (the (exitPrice p)) (entryPrice p)) (lotSize cfg))) \<and>
   dayPnlPercent (simulateDay cfg d strike cePrice pePrice ceTS peTS) =
     jmul (jdiv (totalPnl (simulateDay cfg d strike cePrice pePrice ceTS peTS))
                (jmul (jadd cePrice pePrice) (lotSize cfg))) (Fin 100) \<and>
   entryPrice (positions (simulateDay cfg d strike cePrice pePrice ceTS peTS) ! 0) = cePrice \<and>
   entryPrice (positions (simulateDay cfg d strike cePrice pePrice ceTS peTS) ! 1) = pePrice"
proof -
  let ?td = "simulateDay cfg d strike cePrice pePrice ceTS peTS"
  have 1: "totalPnl ?td = foldl jadd (Fin 0)
       (map (\<lambda>p. jmul (jsub (the (exitPrice p)) (entryPrice p)) (lotSize cfg))
          (filter (\<lambda>p. exitPrice p \<noteq> None) (positions ?td)))"
    by (simp only: simulateDay_totalPnl simulateDay_positions calculateLoop_snd
        calculateLoop_filter)
  have 2: "\<forall>p \<in> set (positions ?td). exitPrice p \<noteq> None \<longrightarrow>
      pnl p = Some (jmul (jsub (the (exitPrice p)) (entryPrice p)) (lotSize cfg))"
    unfolding simulateDay_positions by (blast intro: calculateLoop_pnl)
  obtain rest where r: "map entryPrice (positions ?td) = [cePrice, pePrice] @ rest"
    using simulateDay_entryPrices by blast
  then have len: "2 \<le> length (positions ?td)"
    by (metis length_map length_append le_add1 length_Cons list.size(3) numeral_2_eq_2)
  from len have l0: "0 < length (positions ?td)" and l1: "1 < length (positions ?td)"
    by linarith+
  have "entryPrice (positions ?td ! 0) = map entryPrice (positions ?td) ! 0"
    by (rule nth_map [OF l0, symmetric])
  then have 3: "entryPrice (positions ?td ! 0) = cePrice" using r by simp
  have "entryPrice (positions ?td ! 1) = map entryPrice (positions ?td) ! 1"
    by (rule nth_map [OF l1, symmetric])
  then have 4: "entryPrice (positions ?td ! 1) = pePrice" using r by simp
  from 1 2 3 4 simulateDay_dayPnlPercent [of cfg d strike cePrice pePrice ceTS peTS]
  show ?thesis by blast
qed

lemma processTradingDay_cases:
  assumes "processTradingDay ds cfg d = Inr td"
  shows "td = \<lparr>date = d, atmStrike = Fin 0, positions = [], totalPnl = Fin 0,
               madeAdjustment = False, dayPnlPercent = Fin 0\<rparr> \<or>
         (\<exists>s cePrice pePrice ceTS peTS. td = simulateDay cfg d s cePrice pePrice ceTS peTS)"
  using assms
  by (simp add: processTradingDay_def split: sum.splits if_splits) blast+

section \<open>The claims\<close>

subsection \<open>C1\<close>

text \<open>
  C1: on a day entered at 100 and 100 whose two legs both trade at 60 at 09:30, the
  combined stop-loss holds at that event (the total is down 40 percent) and closes both
  legs with the combined reason; the individual stop-loss of each leg holds too, runs on
  the same reference and closes the leg a second time. The reason recorded for the two
  legs is then the individual one.
\<close>

theorem C1_individual_stop_loss_overwrites_combined_reason:
  "map exitReason
     (combinedExit exampleConfig (Some 0) (Some 1)
        (Some \<lparr>ltp = Fin 60, received_at = 34200000\<rparr>)
        (Some \<lparr>ltp = Fin 60, received_at = 34200000\<rparr>) 34200000
        (initialPositions exampleConfig ''2025-05-23'' (Fin 50000) (Fin 100) (Fin 100)))
     = [Some TOTAL_PL_SL, Some TOTAL_PL_SL] \<and>
   map exitReason
     (applyExits exampleConfig (Some 0) (Some 1)
        (Some \<lparr>ltp = Fin 60, received_at = 34200000\<rparr>)
        (Some \<lparr>ltp = Fin 60, received_at = 34200000\<rparr>) 34200000
        (initialPositions exampleConfig ''2025-05-23'' (Fin 50000) (Fin 100) (Fin 100)))
     = [Some SL, Some SL] \<and>
   map exitReason
     (take 2 (positions (simulateDay exampleConfig ''2025-05-23'' (Fin 50000) (Fin 100) (Fin 100)
        (ticks [(34200000, 60)]) (ticks [(34200000, 60)]))))
     = [Some SL, Some SL]"
  by code_simp

subsection \<open>C2\<close>

text \<open>
  C2: on a day entered at 100 and 100 whose legs trade at 60 at 09:30, at 80 at 09:31
  and at 70 at 09:32, the adjustment pair opened at 60 at 09:30 is found by the same
  search for an active leg at 09:31, where the combined target holds for it (the total
  is up a third): both adjustment positions are closed at 09:31 at 80 with the combined
  target as reason, and not at the last tick of 09:32.
\<close>

theorem C2_adjustment_pair_closed_by_combined_target:
  "map exitReason (drop 2 (positions
     (simulateDay exampleConfig ''2025-05-23'' (Fin 50000) (Fin 100) (Fin 100)
        exampleSeries exampleSeries)))
     = [Some TOTAL_PL_TARGET, Some TOTAL_PL_TARGET] \<and>
   map exitTime (drop 2 (positions
     (simulateDay exampleConfig ''2025-05-23'' (Fin 50000) (Fin 100) (Fin 100)
        exampleSeries exampleSeries)))
     = [Some 34260000, Some 34260000] \<and>
   map exitPrice (drop 2 (positions
     (simulateDay exampleConfig ''2025-05-23'' (Fin 50000) (Fin 100) (Fin 100)
        exampleSeries exampleSeries)))
     = [Some (Fin 80), Some (Fin 80)] \<and>
   received_at (last exampleSeries) = 34320000"
  by code_simp

subsection \<open>C3\<close>

text \<open>
  C3: the division by an entry price of zero is not guarded. The combined entry total
  is never \<^verbatim>\<open>-0\<close>. When it is zero and the current total is zero too, the percentage
  is \<^verbatim>\<open>NaN\<close> and the combined checks leave the positions as they are; when the current
  total is positive, the percentage is \<^verbatim>\<open>Infinity\<close> and, for every target that is not
  \<^verbatim>\<open>NaN\<close>, the combined target fires and closes the legs that have a tick. For a leg
  whose entry price is a zero: when its tick price is a zero too, the percentage is
  \<^verbatim>\<open>NaN\<close> and the individual stop-loss does not fire; when the entry price is \<^verbatim>\<open>+0\<close>
  and the tick price is positive, the percentage is \<^verbatim>\<open>Infinity\<close> and the stop-loss does
  not fire, for every stop-loss percentage other than \<^verbatim>\<open>-Infinity\<close>; when the entry
  price is \<^verbatim>\<open>-0\<close> and the tick price is positive, the percentage is \<^verbatim>\<open>-Infinity\<close> and
  the stop-loss fires, for every stop-loss percentage other than \<^verbatim>\<open>NaN\<close>, and closes
  the leg with reason \<open>SL\<close>.
\<close>

theorem C3_unguarded_division_by_zero:
  "totalEntry ps ce pe \<noteq> NZero \<and>
   (totalEntry ps ce pe = Fin 0 \<and> currentTotal ceData peData = Fin 0 \<longrightarrow>
      combinedExit cfg ce pe ceData peData t ps = ps) \<and>
   (totalEntry ps ce pe = Fin 0 \<and> currentTotal ceData peData = Fin c \<and> 0 < c \<and>
    PNL_TARGET_PERCENT cfg \<noteq> NaN \<longrightarrow>
      combinedExit cfg ce pe ceData peData t ps =
        exitLeg pe peData t TOTAL_PL_TARGET (exitLeg ce ceData t TOTAL_PL_TARGET ps)) \<and>
   (isZero (entryPrice (ps ! i)) \<and> isZero (ltp x) \<longrightarrow>
      individualSL cfg (Some i) (Some x) t ps = ps) \<and>
   (entryPrice (ps ! i) = Fin 0 \<and> ltp x = Fin a \<and> 0 < a \<and> SL_PERCENT cfg \<noteq> NInf \<longrightarrow>
      individualSL cfg (Some i) (Some x) t ps = ps) \<and>
   (entryPrice (ps ! i) = NZero \<and> ltp x = Fin a \<and> 0 < a \<and> SL_PERCENT cfg \<noteq> NaN \<longrightarrow>
      individualSL cfg (Some i) (Some x) t ps = ps[i := exitPosition (ps ! i) (Fin a) t SL])"
proof (intro conjI impI)
  show "totalEntry ps ce pe \<noteq> NZero"
    unfolding totalEntry_def by (rule jadd_not_NZero) (rule orZero_not_NZero)
next
  assume "totalEntry ps ce pe = Fin 0 \<and> currentTotal ceData peData = Fin 0"
  then show "combinedExit cfg ce pe ceData peData t ps = ps"
    by (simp add: combinedExit_def totalChange_zero_entry jle_def jge_NaN_right)
next
  assume h: "totalEntry ps ce pe = Fin 0 \<and> currentTotal ceData peData = Fin c \<and> 0 < c \<and>
    PNL_TARGET_PERCENT cfg \<noteq> NaN"
  then have "jge PInf (PNL_TARGET_PERCENT cfg)"
    by (cases "PNL_TARGET_PERCENT cfg") simp_all
  with h show "combinedExit cfg ce pe ceData peData t ps =
        exitLeg pe peData t TOTAL_PL_TARGET (exitLeg ce ceData t TOTAL_PL_TARGET ps)"
    by (simp add: combinedExit_def totalChange_zero_entry)
next
  assume "isZero (entryPrice (ps ! i)) \<and> isZero (ltp x)"
  then have "jmul (jdiv (jsub (ltp x) (entryPrice (ps ! i))) (entryPrice (ps ! i))) (Fin 100) = NaN"
    by (simp add: change_zero_by_zero)
  then show "individualSL cfg (Some i) (Some x) t ps = ps"
    by (simp add: jle_def jge_NaN_right)
next
  assume h: "entryPrice (ps ! i) = Fin 0 \<and> ltp x = Fin a \<and> 0 < a \<and> SL_PERCENT cfg \<noteq> NInf"
  then have c: "jmul (jdiv (jsub (ltp x) (entryPrice (ps ! i))) (entryPrice (ps ! i))) (Fin 100) = PInf"
    by (simp add: jsub_def jdiv_def jmul_def infOf_def)
  from h have "\<not> jge (jneg (SL_PERCENT cfg)) PInf"
    by (cases "SL_PERCENT cfg") (simp_all split: if_splits)
  with c show "individualSL cfg (Some i) (Some x) t ps = ps"
    by (simp add: jle_def)
next
  assume h: "entryPrice (ps ! i) = NZero \<and> ltp x = Fin a \<and> 0 < a \<and> SL_PERCENT cfg \<noteq> NaN"
  then have c: "jmul (jdiv (jsub (ltp x) (entryPrice (ps ! i))) (entryPrice (ps ! i))) (Fin 100) = NInf"
    by (simp add: jsub_def jdiv_def jmul_def infOf_def)
  from h have "jge (jneg (SL_PERCENT cfg)) NInf"
    by (cases "SL_PERCENT cfg") (simp_all split: if_splits)
  with c h show "individualSL cfg (Some i) (Some x) t ps = ps[i := exitPosition (ps ! i) (Fin a) t SL]"
    by (simp add: jle_def)
qed

theorem C3_unguarded_division_by_zero_witness:
  "totalEntry (initialPositions exampleConfig ''2025-05-23'' (Fin 50000) (Fin 0) NZero)
      (Some 0) (Some 1) = Fin 0 \<and>
   currentTotal (Some \<lparr>ltp = Fin 50, received_at = 34200000\<rparr>)
      (Some \<lparr>ltp = Fin 50, received_at = 34200000\<rparr>) = Fin 100 \<and>
   PNL_TARGET_PERCENT exampleConfig \<noteq> NaN \<and>
   map exitReason (combinedExit exampleConfig (Some 0) (Some 1)
      (Some \<lparr>ltp = Fin 50, received_at = 34200000\<rparr>)
      (Some \<lparr>ltp = Fin 50, received_at = 34200000\<rparr>) 34200000
      (initialPositions exampleConfig ''2025-05-23'' (Fin 50000) (Fin 0) NZero))
     = [Some TOTAL_PL_TARGET, Some TOTAL_PL_TARGET] \<and>
   currentTotal (Some \<lparr>ltp = Fin 0, received_at = 34200000\<rparr>)
      (Some \<lparr>ltp = Fin 0, received_at = 34200000\<rparr>) = Fin 0 \<and>
   combinedExit exampleConfig (Some 0) (Some 1)
      (Some \<lparr>ltp = Fin 0, received_at = 34200000\<rparr>)
      (Some \<lparr>ltp = Fin 0, received_at = 34200000\<rparr>) 34200000
      (initialPositions exampleConfig ''2025-05-23'' (Fin 50000) (Fin 0) NZero)
     = initialPositions exampleConfig ''2025-05-23'' (Fin 50000) (Fin 0) NZero \<and>
   individualSL exampleConfig (Some 1) (Some \<lparr>ltp = Fin 0, received_at = 34200000\<rparr>) 34200000
      (initialPositions exampleConfig ''2025-05-23'' (Fin 50000) (Fin 0) NZero)
     = initialPositions exampleConfig ''2025-05-23'' (Fin 50000) (Fin 0) NZero \<and>
   SL_PERCENT exampleConfig \<noteq> NInf \<and>
   individualSL exampleConfig (Some 0) (Some \<lparr>ltp = Fin 50, received_at = 34200000\<rparr>) 34200000
      (initialPositions exampleConfig ''2025-05-23'' (Fin 50000) (Fin 0) NZero)
     = initialPositions exampleConfig ''2025-05-23'' (Fin 50000) (Fin 0) NZero \<and>
   SL_PERCENT exampleConfig \<noteq> NaN \<and>
   map exitReason
     (individualSL exampleConfig (Some 1) (Some \<lparr>ltp = Fin 50, received_at = 34200000\<rparr>) 34200000
        (initialPositions exampleConfig ''2025-05-23'' (Fin 50000) (Fin 0) NZero))
     = [None, Some SL]"
proof -
  let ?ps = "initialPositions exampleConfig ''2025-05-23'' (Fin 50000) (Fin 0) NZero"
  let ?x = "\<lparr>ltp = Fin 50, received_at = 34200000\<rparr>"
  let ?z = "\<lparr>ltp = Fin 0, received_at = 34200000\<rparr>"
  have e: "totalEntry ?ps (Some 0) (Some 1) = Fin 0"
    by (simp add: totalEntry_def initialPositions_def)
  have c: "currentTotal (Some ?x) (Some ?x) = Fin 100" by (simp add: currentTotal_def)
  have z: "currentTotal (Some ?z) (Some ?z) = Fin 0" by (simp add: currentTotal_def)
  have n: "PNL_TARGET_PERCENT exampleConfig \<noteq> NaN" "SL_PERCENT exampleConfig \<noteq> NInf"
    "SL_PERCENT exampleConfig \<noteq> NaN"
    by (simp_all add: exampleConfig_def)
  have p0: "entryPrice (?ps ! 0) = Fin 0" by (simp add: initialPositions_def)
  have p1: "entryPrice (?ps ! 1) = NZero" by (simp add: initialPositions_def)
  have 1: "combinedExit exampleConfig (Some 0) (Some 1) (Some ?x) (Some ?x) 34200000 ?ps =
        exitLeg (Some 1) (Some ?x) 34200000 TOTAL_PL_TARGET
          (exitLeg (Some 0) (Some ?x) 34200000 TOTAL_PL_TARGET ?ps)"
    using e c n(1)
      C3_unguarded_division_by_zero [of ?ps "Some 0" "Some 1" "Some ?x" "Some ?x" exampleConfig
        34200000 100]
    by simp
  have 2: "combinedExit exampleConfig (Some 0) (Some 1) (Some ?z) (Some ?z) 34200000 ?ps = ?ps"
    using e z
      C3_unguarded_division_by_zero [of ?ps "Some 0" "Some 1" "Some ?z" "Some ?z" exampleConfig
        34200000]
    by simp
  have 3: "individualSL exampleConfig (Some 1) (Some ?z) 34200000 ?ps = ?ps"
    using p1
      C3_unguarded_division_by_zero [of ?ps _ _ _ _ exampleConfig 34200000 _ 1 ?z]
    by simp
  have 4: "individualSL exampleConfig (Some 0) (Some ?x) 34200000 ?ps = ?ps"
    using p0 n(2)
      C3_unguarded_division_by_zero [of ?ps _ _ _ _ exampleConfig 34200000 _ 0 ?x 50]
    by simp
  have 5: "individualSL exampleConfig (Some 1) (Some ?x) 34200000 ?ps
      = ?ps[1 := exitPosition (?ps ! 1) (Fin 50) 34200000 SL]"
    using p1 n(3)
      C3_unguarded_division_by_zero [of ?ps _ _ _ _ exampleConfig 34200000 _ 1 ?x 50]
    by simp
  have 6: "map exitReason (exitLeg (Some 1) (Some ?x) 34200000 TOTAL_PL_TARGET
          (exitLeg (Some 0) (Some ?x) 34200000 TOTAL_PL_TARGET ?ps))
      = [Some TOTAL_PL_TARGET, Some TOTAL_PL_TARGET]"
    by (simp add: initialPositions_def exitPosition_def)
  have 7: "map exitReason (?ps[1 := exitPosition (?ps ! 1) (Fin 50) 34200000 SL]) = [None, Some SL]"
    by (simp add: initialPositions_def exitPosition_def)
  from e c z n 1 2 3 4 5 6 7 show ?thesis by simp
qed

text \<open>
  C3, the claim as stated fails: both entry prices are zero (the data service found no
  price at the entry time) and both legs tick at 50 at 09:30. The combined entry total
  is zero, the percentage is \<^verbatim>\<open>Infinity\<close>, and the combined target closes both legs.
\<close>

theorem C3_zero_entry_fires_combined_target:
  "totalEntry (initialPositions exampleConfig ''2025-05-23'' (Fin 50000) (Fin 0) (Fin 0))
      (Some 0) (Some 1) = Fin 0 \<and>
   totalChange (Fin 100) (Fin 0) = PInf \<and>
   map exitReason (take 2 (positions
      (simulateDay exampleConfig ''2025-05-23'' (Fin 50000) (Fin 0) (Fin 0)
         (ticks [(34200000, 50)]) (ticks [(34200000, 50)]))))
     = [Some TOTAL_PL_TARGET, Some TOTAL_PL_TARGET] \<and>
   map isActive (take 2 (positions
      (simulateDay exampleConfig ''2025-05-23'' (Fin 50000) (Fin 0) (Fin 0)
         (ticks [(34200000, 50)]) (ticks [(34200000, 50)]))))
     = [False, False]"
  by code_simp

subsection \<open>C4\<close>

text \<open>
  C4: whenever a re-entry occurred, that is the day holds the adjustment pair,
  \<open>madeAdjustment\<close> is true; and when the two legs tick at the same timestamps,
  \<open>madeAdjustment\<close> is true exactly when the pair was opened.
\<close>

theorem C4_madeAdjustment_of_reentry:
  "(2 < length (positions (simulateDay cfg d strike cePrice pePrice ceTS peTS)) \<longrightarrow>
      madeAdjustment (simulateDay cfg d strike cePrice pePrice ceTS peTS)) \<and>
   (set (map received_at ceTS) = set (map received_at peTS) \<longrightarrow>
      madeAdjustment (simulateDay cfg d strike cePrice pePrice ceTS peTS) =
        (map type (positions (simulateDay cfg d strike cePrice pePrice ceTS peTS))
           = [CE, PE, CE, PE]))"
proof -
  let ?init = "\<lparr>tradeDay = initialTradeDay cfg d strike cePrice pePrice,
         adjustmentDone = False, console = []\<rparr>"
  let ?st = "eventLoop cfg d ceTS peTS (sortedTimes ceTS peTS) ?init"
  let ?td = "simulateDay cfg d strike cePrice pePrice ceTS peTS"
  have m: "madeAdjustment ?td = madeAdjustment (tradeDay ?st)"
    by (simp add: simulateDay_madeAdjustment processOptionPrices_madeAdjustment)
  have ty: "map type (positions ?td) = map type (positions (tradeDay ?st))"
    by (rule simulateDay_types)
  have "adjInv [CE, PE] ?st"
    using initial_adjInv by (rule eventLoop_adjInv)
  then have 1: "2 < length (positions ?td) \<longrightarrow> madeAdjustment ?td"
    using m ty by (auto simp: adjInv_def dest: arg_cong [where f = length])
  have 2: "madeAdjustment ?td = (map type (positions ?td) = [CE, PE, CE, PE])"
    if eq: "set (map received_at ceTS) = set (map received_at peTS)"
  proof -
    have "adjInvA [CE, PE] ?init"
      by (simp add: adjInvA_def initialTradeDay_def initialPositions_def)
    then have "adjInvA [CE, PE] ?st"
      by (rule eventLoop_adjInvA) (use eq in \<open>simp_all add: set_sortedTimes\<close>)
    then show ?thesis using m ty by (auto simp: adjInvA_def)
  qed
  from 1 2 show ?thesis by blast
qed

theorem C4_madeAdjustment_of_reentry_witness:
  "2 < length (positions (simulateDay exampleConfig ''2025-05-23'' (Fin 50000) (Fin 100) (Fin 100)
      exampleSeries exampleSeries)) \<and>
   set (map received_at exampleSeries) = set (map received_at exampleSeries) \<and>
   madeAdjustment (simulateDay exampleConfig ''2025-05-23'' (Fin 50000) (Fin 100) (Fin 100)
      exampleSeries exampleSeries)"
proof -
  have h: "2 < length (positions (simulateDay exampleConfig ''2025-05-23'' (Fin 50000) (Fin 100)
      (Fin 100) exampleSeries exampleSeries))" by code_simp
  then have "madeAdjustment (simulateDay exampleConfig ''2025-05-23'' (Fin 50000) (Fin 100) (Fin 100)
      exampleSeries exampleSeries)"
    using C4_madeAdjustment_of_reentry [of exampleConfig "''2025-05-23''" "Fin 50000" "Fin 100"
        "Fin 100" exampleSeries exampleSeries]
    by blast
  with h show ?thesis by simp
qed

text \<open>
  C4, the claim as stated fails: the CE leg ticks only at 09:30 and the PE leg only at
  09:31, both at 60 after an entry at 100. Each leg is closed at its own tick; at 09:31
  all positions are inactive before the cutoff, \<open>madeAdjustment\<close> is set, and no pair is
  opened because the CE leg has no tick at 09:31.
\<close>

theorem C4_madeAdjustment_without_reentry:
  "madeAdjustment (simulateDay exampleConfig ''2025-05-23'' (Fin 50000) (Fin 100) (Fin 100)
      (ticks [(34200000, 60)]) (ticks [(34260000, 60)])) \<and>
   length (positions (simulateDay exampleConfig ''2025-05-23'' (Fin 50000) (Fin 100) (Fin 100)
      (ticks [(34200000, 60)]) (ticks [(34260000, 60)]))) = 2"
  by code_simp

subsection \<open>C5\<close>

text \<open>
  C5: for the empty list of dates the runner returns a result, whatever the data
  service and the configuration: no day, a total of zero, both counters at zero, and
  \<^verbatim>\<open>NaN\<close> for both \<open>winRate\<close> and \<open>averageDailyPnl\<close>, each computed as zero divided by
  zero. No fault is raised.
\<close>

theorem C5_empty_date_list_gives_NaN:
  "runBacktest ds cfg [] =
     Inr \<lparr>days = [], totalPnl_all = Fin 0, winningDays = 0, losingDays = 0,
          winRate = NaN, averageDailyPnl = NaN\<rparr>"
  by (simp add: runBacktest_def jdiv_def jmul_def)

theorem C5_empty_date_list_gives_NaN_witness:
  "winRate (projr (runBacktest exampleService exampleConfig [])) = NaN \<and>
   days (projr (runBacktest exampleService exampleConfig [])) = []"
  using C5_empty_date_list_gives_NaN [of exampleService exampleConfig] by simp

text \<open>
  C5, the claim as stated fails: with the example service and configuration the runner
  returns normally for the empty list, and both derived metrics of the result are
  \<^verbatim>\<open>NaN\<close>.
\<close>

theorem C5_no_InvalidInput_for_empty_list:
  "runBacktest exampleService exampleConfig [] =
     Inr \<lparr>days = [], totalPnl_all = Fin 0, winningDays = 0, losingDays = 0,
          winRate = NaN, averageDailyPnl = NaN\<rparr>"
  by code_simp

subsection \<open>C6\<close>

text \<open>
  C6: on a day for which the data service has no ATM strike (\<^verbatim>\<open>null\<close>, or a strike
  that is \<^verbatim>\<open>0\<close> or \<^verbatim>\<open>NaN\<close>), \<^verbatim>\<open>processTradingDay\<close> returns normally a trade day with
  no position and a total of zero. On a day with an ATM strike, entry prices and two
  empty tick series, it returns normally a trade day that holds the two entry positions,
  both still active and without exit, with a total of zero.
\<close>

theorem C6_day_without_data:
  "(getATMStrike ds d = Inr strike \<and> noStrike strike \<longrightarrow>
      processTradingDay ds cfg d =
        Inr \<lparr>date = d, atmStrike = Fin 0, positions = [], totalPnl = Fin 0,
             madeAdjustment = False, dayPnlPercent = Fin 0\<rparr>) \<and>
   (getATMStrike ds d = Inr (Some s) \<and> truthy s \<and>
    getOptionPrice ds d s CE = Inr cePrice \<and> getOptionPrice ds d s PE = Inr pePrice \<and>
    getOptionPriceTimeSeries ds d s CE = Inr [] \<and> getOptionPriceTimeSeries ds d s PE = Inr [] \<longrightarrow>
      processTradingDay ds cfg d = Inr (simulateDay cfg d s cePrice pePrice [] []) \<and>
      positions (simulateDay cfg d s cePrice pePrice [] []) = initialPositions cfg d s cePrice pePrice \<and>
      map isActive (positions (simulateDay cfg d s cePrice pePrice [] [])) = [True, True] \<and>
      map exitPrice (positions (simulateDay cfg d s cePrice pePrice [] [])) = [None, None] \<and>
      totalPnl (simulateDay cfg d s cePrice pePrice [] []) = Fin 0)"
  by (simp add: processTradingDay_def simulateDay_no_ticks initialPositions_def)

theorem C6_day_without_data_witness:
  "getATMStrike exampleService ''2025-05-22'' = Inr None \<and> noStrike None \<and>
   positions (projr (processTradingDay exampleService exampleConfig ''2025-05-22'')) = [] \<and>
   totalPnl (projr (processTradingDay exampleService exampleConfig ''2025-05-22'')) = Fin 0 \<and>
   getATMStrike exampleService ''2025-05-21'' = Inr (Some (Fin 50000)) \<and> truthy (Fin 50000) \<and>
   getOptionPrice exampleService ''2025-05-21'' (Fin 50000) CE = Inr (Fin 0) \<and>
   getOptionPrice exampleService ''2025-05-21'' (Fin 50000) PE = Inr (Fin 0) \<and>
   getOptionPriceTimeSeries exampleService ''2025-05-21'' (Fin 50000) CE = Inr [] \<and>
   getOptionPriceTimeSeries exampleService ''2025-05-21'' (Fin 50000) PE = Inr [] \<and>
   totalPnl (projr (processTradingDay exampleService exampleConfig ''2025-05-21'')) = Fin 0"
proof -
  have h: "getATMStrike exampleService ''2025-05-22'' = Inr None \<and> noStrike None"
    by (simp add: exampleService_def)
  with C6_day_without_data [of exampleService "''2025-05-22''" None exampleConfig]
  have 1: "processTradingDay exampleService exampleConfig ''2025-05-22'' =
        Inr \<lparr>date = ''2025-05-22'', atmStrike = Fin 0, positions = [], totalPnl = Fin 0,
             madeAdjustment = False, dayPnlPercent = Fin 0\<rparr>"
    by blast
  have g: "getATMStrike exampleService ''2025-05-21'' = Inr (Some (Fin 50000)) \<and> truthy (Fin 50000) \<and>
   getOptionPrice exampleService ''2025-05-21'' (Fin 50000) CE = Inr (Fin 0) \<and>
   getOptionPrice exampleService ''2025-05-21'' (Fin 50000) PE = Inr (Fin 0) \<and>
   getOptionPriceTimeSeries exampleService ''2025-05-21'' (Fin 50000) CE = Inr [] \<and>
   getOptionPriceTimeSeries exampleService ''2025-05-21'' (Fin 50000) PE = Inr []"
    by (simp add: exampleService_def)
  with C6_day_without_data [of exampleService "''2025-05-21''" _ exampleConfig "Fin 50000"
      "Fin 0" "Fin 0"]
  have 2: "processTradingDay exampleService exampleConfig ''2025-05-21'' =
        Inr (simulateDay exampleConfig ''2025-05-21'' (Fin 50000) (Fin 0) (Fin 0) [] []) \<and>
      totalPnl (simulateDay exampleConfig ''2025-05-21'' (Fin 50000) (Fin 0) (Fin 0) [] []) = Fin 0"
    by blast
  from h 1 g 2 show ?thesis by simp
qed

text \<open>
  C6, the claim as stated fails: on the third day of the example service the strike is
  known and there is no option tick at all; the trade day returned holds two positions,
  both active.
\<close>

theorem C6_positions_without_ticks:
  "getOptionPriceTimeSeries exampleService ''2025-05-21'' (Fin 50000) CE = Inr [] \<and>
   getOptionPriceTimeSeries exampleService ''2025-05-21'' (Fin 50000) PE = Inr [] \<and>
   map isActive (positions (projr (processTradingDay exampleService exampleConfig ''2025-05-21'')))
     = [True, True]"
  by code_simp

subsection \<open>C7\<close>

text \<open>
  C7: a trade day holds the entry pair, CE then PE, and at most one more CE/PE pair; once
  the adjustment is done, the event loop leaves the number of positions as it is, for
  every tick series and every state of the positions.
\<close>

theorem C7_at_most_one_adjustment:
  "(map type (positions (simulateDay cfg d strike cePrice pePrice ceTS peTS)) = [CE, PE] \<or>
    map type (positions (simulateDay cfg d strike cePrice pePrice ceTS peTS)) = [CE, PE, CE, PE]) \<and>
   (adjustmentDone st \<longrightarrow>
      length (positions (tradeDay (eventLoop cfg d ceTS peTS ts st))) =
      length (positions (tradeDay st)))"
proof
  have "adjInv [CE, PE] (eventLoop cfg d ceTS peTS (sortedTimes ceTS peTS)
        \<lparr>tradeDay = initialTradeDay cfg d strike cePrice pePrice,
         adjustmentDone = False, console = []\<rparr>)"
    using initial_adjInv by (rule eventLoop_adjInv)
  then show "map type (positions (simulateDay cfg d strike cePrice pePrice ceTS peTS)) = [CE, PE] \<or>
    map type (positions (simulateDay cfg d strike cePrice pePrice ceTS peTS)) = [CE, PE, CE, PE]"
    by (auto simp: simulateDay_types adjInv_def)
next
  show "adjustmentDone st \<longrightarrow>
      length (positions (tradeDay (eventLoop cfg d ceTS peTS ts st))) =
      length (positions (tradeDay st))"
  proof
    assume "adjustmentDone st"
    then have "adjustmentDone st \<and> map type (positions (tradeDay st)) = map type (positions (tradeDay st))"
      by simp
    then have "adjustmentDone (eventLoop cfg d ceTS peTS ts st) \<and>
        map type (positions (tradeDay (eventLoop cfg d ceTS peTS ts st))) =
        map type (positions (tradeDay st))"
      by (rule eventLoop_induct) (rule processEvent_done)
    then show "length (positions (tradeDay (eventLoop cfg d ceTS peTS ts st))) =
      length (positions (tradeDay st))"
      by (metis length_map)
  qed
qed

theorem C7_at_most_one_adjustment_witness:
  "adjustmentDone exampleAdjusted \<and>
   map type (positions (simulateDay exampleConfig ''2025-05-23'' (Fin 50000) (Fin 100) (Fin 100)
      exampleSeries exampleSeries)) = [CE, PE, CE, PE] \<and>
   list_all (\<lambda>p. \<not> isActive p) (positions (tradeDay
      (eventLoop exampleConfig ''2025-05-23'' exampleSeries exampleSeries [34260000, 34320000]
         exampleAdjusted))) \<and>
   length (positions (tradeDay
      (eventLoop exampleConfig ''2025-05-23'' exampleSeries exampleSeries [34260000, 34320000]
         exampleAdjusted))) = 4"
proof -
  have h: "adjustmentDone exampleAdjusted" by code_simp
  have l: "length (positions (tradeDay exampleAdjusted)) = 4" by code_simp
  have a: "map type (positions (simulateDay exampleConfig ''2025-05-23'' (Fin 50000) (Fin 100) (Fin 100)
      exampleSeries exampleSeries)) = [CE, PE, CE, PE]" by code_simp
  have b: "list_all (\<lambda>p. \<not> isActive p) (positions (tradeDay
      (eventLoop exampleConfig ''2025-05-23'' exampleSeries exampleSeries [34260000, 34320000]
         exampleAdjusted)))" by code_simp
  have "length (positions (tradeDay
      (eventLoop exampleConfig ''2025-05-23'' exampleSeries exampleSeries [34260000, 34320000]
         exampleAdjusted))) = length (positions (tradeDay exampleAdjusted))"
    using h C7_at_most_one_adjustment [of exampleConfig "''2025-05-23''" "Fin 50000" "Fin 100"
        "Fin 100" exampleSeries exampleSeries exampleAdjusted "[34260000, 34320000]"]
    by blast
  with h l a b show ?thesis by simp
qed

subsection \<open>C8\<close>

text \<open>
  C8: after \<^verbatim>\<open>processOptionPrices\<close> on the entry pair of a day, every position whose
  leg has a non-empty series is inactive and has an exit reason; a position whose leg
  has an empty series is still active, without exit reason or exit price, and a warning
  for its leg is on the console. The trade day is returned in every case. The positions
  returned are those left by the event loop, where each one still active whose leg has a
  series is closed at the price and time of the last element of that series with reason
  \<open>EOD\<close>, and every other one is unchanged.
\<close>

theorem C8_positions_closed_at_end_of_day:
  "(\<forall>p \<in> set (positions (fst (processOptionPrices cfg
                (initialTradeDay cfg d strike cePrice pePrice) ceTS peTS d))).
      ((if type p = CE then ceTS else peTS) \<noteq> [] \<longrightarrow> \<not> isActive p \<and> exitReason p \<noteq> None) \<and>
      ((if type p = CE then ceTS else peTS) = [] \<longrightarrow>
          isActive p \<and> exitReason p = None \<and> exitPrice p = None \<and>
          NoTimeSeries (type p) \<in> set (snd (processOptionPrices cfg
                (initialTradeDay cfg d strike cePrice pePrice) ceTS peTS d)))) \<and>
   positions (fst (processOptionPrices cfg td ceTS peTS d)) =
     map (\<lambda>pos. if isActive pos \<and> (if type pos = CE then ceTS else peTS) \<noteq> []
                 then pos\<lparr>exitPrice := Some (ltp (last (if type pos = CE then ceTS else peTS))),
                          exitTime := Some (received_at (last (if type pos = CE then ceTS else peTS))),
                          isActive := False, exitReason := Some EOD\<rparr>
                 else pos)
       (positions (tradeDay (eventLoop cfg d ceTS peTS (sortedTimes ceTS peTS)
          \<lparr>tradeDay = td, adjustmentDone = False, console = []\<rparr>)))"
proof
  let ?td0 = "initialTradeDay cfg d strike cePrice pePrice"
  let ?loop = "positions (tradeDay (eventLoop cfg d ceTS peTS (sortedTimes ceTS peTS)
          \<lparr>tradeDay = ?td0, adjustmentDone = False, console = []\<rparr>))"
  let ?ws = "snd (processOptionPrices cfg ?td0 ceTS peTS d)"
  have ok: "list_all (okPos ceTS peTS) ?loop"
    by (rule eventLoop_okPos) (simp add: initial_okPos)
  show "\<forall>p \<in> set (positions (fst (processOptionPrices cfg ?td0 ceTS peTS d))).
      ((if type p = CE then ceTS else peTS) \<noteq> [] \<longrightarrow> \<not> isActive p \<and> exitReason p \<noteq> None) \<and>
      ((if type p = CE then ceTS else peTS) = [] \<longrightarrow>
          isActive p \<and> exitReason p = None \<and> exitPrice p = None \<and> NoTimeSeries (type p) \<in> set ?ws)"
  proof
    fix p
    assume "p \<in> set (positions (fst (processOptionPrices cfg ?td0 ceTS peTS d)))"
    then obtain q where q: "q \<in> set ?loop" and p: "p = fst (eodExit ceTS peTS q)"
      by (auto simp: processOptionPrices_positions)
    from ok q have okq: "okPos ceTS peTS q" by (simp add: list_all_iff)
    note e = eodExit_okPos [OF okq]
    have "NoTimeSeries (type q) \<in> set ?ws" if "(if type q = CE then ceTS else peTS) = []"
    proof -
      from e that have "snd (eodExit ceTS peTS q) = [NoTimeSeries (type q)]" by blast
      with q have "NoTimeSeries (type q) \<in> set (concat (map (\<lambda>pos. snd (eodExit ceTS peTS pos)) ?loop))"
        by force
      then show ?thesis using processOptionPrices_console [of ceTS peTS cfg d ?td0] by blast
    qed
    with e show "((if type p = CE then ceTS else peTS) \<noteq> [] \<longrightarrow> \<not> isActive p \<and> exitReason p \<noteq> None) \<and>
      ((if type p = CE then ceTS else peTS) = [] \<longrightarrow>
          isActive p \<and> exitReason p = None \<and> exitPrice p = None \<and> NoTimeSeries (type p) \<in> set ?ws)"
      unfolding p eodExit_type by metis
  qed
next
  show "positions (fst (processOptionPrices cfg td ceTS peTS d)) =
     map (\<lambda>pos. if isActive pos \<and> (if type pos = CE then ceTS else peTS) \<noteq> []
                 then pos\<lparr>exitPrice := Some (ltp (last (if type pos = CE then ceTS else peTS))),
                          exitTime := Some (received_at (last (if type pos = CE then ceTS else peTS))),
                          isActive := False, exitReason := Some EOD\<rparr>
                 else pos)
       (positions (tradeDay (eventLoop cfg d ceTS peTS (sortedTimes ceTS peTS)
          \<lparr>tradeDay = td, adjustmentDone = False, console = []\<rparr>)))"
    unfolding processOptionPrices_positions
    by (rule map_cong) (auto simp: eodExit_def exitPosition_def Let_def)
qed

theorem C8_positions_closed_at_end_of_day_witness:
  "positions (fst (processOptionPrices exampleConfig
       (initialTradeDay exampleConfig ''2025-05-23'' (Fin 50000) (Fin 100) (Fin 100))
       (ticks [(34200000, 60)]) [] ''2025-05-23'')) ! 0
     \<in> set (positions (fst (processOptionPrices exampleConfig
       (initialTradeDay exampleConfig ''2025-05-23'' (Fin 50000) (Fin 100) (Fin 100))
       (ticks [(34200000, 60)]) [] ''2025-05-23''))) \<and>
   type (positions (fst (processOptionPrices exampleConfig
       (initialTradeDay exampleConfig ''2025-05-23'' (Fin 50000) (Fin 100) (Fin 100))
       (ticks [(34200000, 60)]) [] ''2025-05-23'')) ! 0) = CE \<and>
   ticks [(34200000, 60)] \<noteq> [] \<and>
   \<not> isActive (positions (fst (processOptionPrices exampleConfig
       (initialTradeDay exampleConfig ''2025-05-23'' (Fin 50000) (Fin 100) (Fin 100))
       (ticks [(34200000, 60)]) [] ''2025-05-23'')) ! 0) \<and>
   exitReason (positions (fst (processOptionPrices exampleConfig
       (initialTradeDay exampleConfig ''2025-05-23'' (Fin 50000) (Fin 100) (Fin 100))
       (ticks [(34200000, 60)]) [] ''2025-05-23'')) ! 0) \<noteq> None \<and>
   positions (fst (processOptionPrices exampleConfig
       (initialTradeDay exampleConfig ''2025-05-23'' (Fin 50000) (Fin 100) (Fin 100))
       (ticks [(34200000, 60)]) [] ''2025-05-23'')) ! 1
     \<in> set (positions (fst (processOptionPrices exampleConfig
       (initialTradeDay exampleConfig ''2025-05-23'' (Fin 50000) (Fin 100) (Fin 100))
       (ticks [(34200000, 60)]) [] ''2025-05-23''))) \<and>
   type (positions (fst (processOptionPrices exampleConfig
       (initialTradeDay exampleConfig ''2025-05-23'' (Fin 50000) (Fin 100) (Fin 100))
       (ticks [(34200000, 60)]) [] ''2025-05-23'')) ! 1) = PE \<and>
   isActive (positions (fst (processOptionPrices exampleConfig
       (initialTradeDay exampleConfig ''2025-05-23'' (Fin 50000) (Fin 100) (Fin 100))
       (ticks [(34200000, 60)]) [] ''2025-05-23'')) ! 1) \<and>
   NoTimeSeries PE \<in> set (snd (processOptionPrices exampleConfig
       (initialTradeDay exampleConfig ''2025-05-23'' (Fin 50000) (Fin 100) (Fin 100))
       (ticks [(34200000, 60)]) [] ''2025-05-23''))"
proof -
  let ?r = "processOptionPrices exampleConfig
       (initialTradeDay exampleConfig ''2025-05-23'' (Fin 50000) (Fin 100) (Fin 100))
       (ticks [(34200000, 60)]) [] ''2025-05-23''"
  have len: "length (positions (fst ?r)) = 2" by code_simp
  then have mem: "positions (fst ?r) ! 0 \<in> set (positions (fst ?r))" by simp
  have ty: "type (positions (fst ?r) ! 0) = CE" by code_simp
  have ne: "ticks [(34200000, 60)] \<noteq> []" by (simp add: ticks_def)
  from mem ty ne
    C8_positions_closed_at_end_of_day [of exampleConfig "''2025-05-23''" "Fin 50000" "Fin 100"
      "Fin 100" "ticks [(34200000, 60)]" "[]"]
  have "\<not> isActive (positions (fst ?r) ! 0) \<and> exitReason (positions (fst ?r) ! 0) \<noteq> None"
    by (metis (no_types, lifting))
  note first = this
  have mem1: "positions (fst ?r) ! 1 \<in> set (positions (fst ?r))" using len by simp
  have ty1: "type (positions (fst ?r) ! 1) = PE" by code_simp
  from mem1 ty1
    C8_positions_closed_at_end_of_day [of exampleConfig "''2025-05-23''" "Fin 50000" "Fin 100"
      "Fin 100" "ticks [(34200000, 60)]" "[]"]
  have "isActive (positions (fst ?r) ! 1) \<and> NoTimeSeries PE \<in> set (snd ?r)"
    by (metis (no_types, lifting) optType.distinct(1))
  with first mem ty ne mem1 ty1 show ?thesis by simp
qed

subsection \<open>C9\<close>

text \<open>
  C9: the total of a trade day is the sum, taken from zero in the order of the
  positions, of (exitPrice - entryPrice) * lotSize over the positions that have an exit
  price, and each of these positions stores its own term as \<open>pnl\<close>. On a day that has
  positions, the day's percentage is totalPnl / ((ceEntryPrice + peEntryPrice) * lotSize)
  * 100 with the entry prices of the first two positions, the original pair.
\<close>

theorem C9_day_totals:
  assumes "processTradingDay ds cfg d = Inr td"
  shows "totalPnl td =
           foldl jadd (Fin 0)
             (map (\<lambda>p. jmul (jsub (the (exitPrice p)) (entryPrice p)) (lotSize cfg))
                (filter (\<lambda>p. exitPrice p \<noteq> None) (positions td))) \<and>
         (\<forall>p \<in> set (positions td).
            exitPrice p \<noteq> None \<longrightarrow>
            pnl p = Some (jmul (jsub (the (exitPrice p)) (entryPrice p)) (lotSize cfg))) \<and>
         (positions td \<noteq> [] \<longrightarrow>
            dayPnlPercent td =
              jmul (jdiv (totalPnl td)
                      (jmul (jadd (entryPrice (positions td ! 0)) (entryPrice (positions td ! 1)))
                         (lotSize cfg)))
                (Fin 100))"
proof -
  from processTradingDay_cases [OF assms]
  consider (none) "td = \<lparr>date = d, atmStrike = Fin 0, positions = [], totalPnl = Fin 0,
               madeAdjustment = False, dayPnlPercent = Fin 0\<rparr>"
    | (sim) s cePrice pePrice ceTS peTS where "td = simulateDay cfg d s cePrice pePrice ceTS peTS"
    by blast
  then show ?thesis
  proof cases
    case none
    then show ?thesis by simp
  next
    case sim
    note t = simulateDay_totals [of cfg d s cePrice pePrice ceTS peTS]
    from t have e0: "entryPrice (positions td ! 0) = cePrice"
      and e1: "entryPrice (positions td ! 1) = pePrice"
      unfolding sim by blast+
    from t show ?thesis unfolding e0 e1 unfolding sim by blast
  qed
qed

theorem C9_day_totals_witness:
  "processTradingDay exampleService exampleConfig ''2025-05-23''
     = Inr (projr (processTradingDay exampleService exampleConfig ''2025-05-23'')) \<and>
   positions (projr (processTradingDay exampleService exampleConfig ''2025-05-23'')) \<noteq> [] \<and>
   totalPnl (projr (processTradingDay exampleService exampleConfig ''2025-05-23'')) = Fin (- 2400) \<and>
   dayPnlPercent (projr (processTradingDay exampleService exampleConfig ''2025-05-23'')) = Fin (- 40)"
proof -
  let ?td = "projr (processTradingDay exampleService exampleConfig ''2025-05-23'')"
  have h: "processTradingDay exampleService exampleConfig ''2025-05-23'' = Inr ?td" by code_simp
  have len: "length (positions ?td) = 4" by code_simp
  then have ne: "positions ?td \<noteq> []" by auto
  have t: "totalPnl ?td = Fin (- 2400)" by code_simp
  have e0: "entryPrice (positions ?td ! 0) = Fin 100" by code_simp
  have e1: "entryPrice (positions ?td ! 1) = Fin 100" by code_simp
  have lot: "lotSize exampleConfig = Fin 30" by code_simp
  from ne C9_day_totals [OF h]
  have "dayPnlPercent ?td =
      jmul (jdiv (totalPnl ?td)
              (jmul (jadd (entryPrice (positions ?td ! 0)) (entryPrice (positions ?td ! 1)))
                 (lotSize exampleConfig)))
        (Fin 100)"
    by blast
  then have "dayPnlPercent ?td = Fin (- 40)"
    by (simp add: t e0 e1 [unfolded One_nat_def] lot jdiv_def jmul_def)
  with h ne t show ?thesis by simp
qed

subsection \<open>C10\<close>

text \<open>
  C10: when the runner returns a result for a list of dates, the result holds one trade
  day for each date, in order, as \<^verbatim>\<open>processTradingDay\<close> returned it; the winning
  days are the days whose total is at least zero, the losing days are all the others,
  so the two counters add up to the number of days; and the total of the result is the
  sum of the totals of the days, taken from zero in the order of the days.
\<close>

theorem C10_runner_counters_and_total:
  assumes "runBacktest ds cfg dl = Inr r"
  shows "winningDays r + losingDays r = length (days r) \<and>
         length (days r) = length dl \<and>
         map (processTradingDay ds cfg) dl = map Inr (days r) \<and>
         winningDays r = length (filter (\<lambda>td. jge (totalPnl td) (Fin 0)) (days r)) \<and>
         losingDays r = length (filter (\<lambda>td. \<not> jge (totalPnl td) (Fin 0)) (days r)) \<and>
         totalPnl_all r = foldl jadd (Fin 0) (map totalPnl (days r))"
proof -
  let ?r0 = "\<lparr>days = [], totalPnl_all = Fin 0, winningDays = 0, losingDays = 0,
              winRate = Fin 0, averageDailyPnl = Fin 0\<rparr>"
  from assms obtain r1 where run: "runLoop ds cfg dl ?r0 = Inr r1"
    and r: "r = r1\<lparr>winRate := jmul (jdiv (Fin (real (winningDays r1)))
                          (Fin (real (length (days r1))))) (Fin 100),
                      averageDailyPnl := jdiv (totalPnl_all r1) (Fin (real (length (days r1))))\<rparr>"
    by (auto simp: runBacktest_def Let_def split: sum.splits)
  have "resInv ?r0" by (simp add: resInv_def)
  from runLoop_resInv [OF this run]
  have inv: "resInv r1" and ds: "map Inr (days r1) = map (processTradingDay ds cfg) dl"
    by simp_all
  from ds have len: "length (days r1) = length dl"
    by (metis length_map)
  have "length (filter (\<lambda>td. jge (totalPnl td) (Fin 0)) (days r1)) +
        length (filter (\<lambda>td. \<not> jge (totalPnl td) (Fin 0)) (days r1)) = length (days r1)"
    by (rule sum_length_filter_compl)
  with inv ds len show ?thesis unfolding r by (simp add: resInv_def)
qed

theorem C10_runner_counters_and_total_witness:
  "runBacktest exampleService exampleConfig [''2025-05-23'', ''2025-05-22'', ''2025-05-21'']
     = Inr (projr (runBacktest exampleService exampleConfig
                     [''2025-05-23'', ''2025-05-22'', ''2025-05-21''])) \<and>
   winningDays (projr (runBacktest exampleService exampleConfig
                     [''2025-05-23'', ''2025-05-22'', ''2025-05-21''])) = 2 \<and>
   losingDays (projr (runBacktest exampleService exampleConfig
                     [''2025-05-23'', ''2025-05-22'', ''2025-05-21''])) = 1 \<and>
   length (days (projr (runBacktest exampleService exampleConfig
                     [''2025-05-23'', ''2025-05-22'', ''2025-05-21'']))) = 3"
proof -
  let ?run = "runBacktest exampleService exampleConfig [''2025-05-23'', ''2025-05-22'', ''2025-05-21'']"
  have h: "?run = Inr (projr ?run)" by code_simp
  have w: "winningDays (projr ?run) = 2" by code_simp
  have l: "losingDays (projr ?run) = 1" by code_simp
  from C10_runner_counters_and_total [OF h] w l
  have "length (days (projr ?run)) = 3" by simp
  with h w l show ?thesis by simp
qed

end
